theory Spec2Isabelle
  imports Main "HOL-Library.Sublist"
begin

section \<open>Strings and errors\<close>

text \<open>
  A Python \<open>str\<close> is a sequence of Unicode code points and \<open>len\<close> counts code points.
  The bot's texts are Cyrillic, so a string is modelled as the list of its code points;
  \<open>py\<close> turns an ASCII literal of the source into that representation.
\<close>

type_synonym pystr = "nat list"

definition py :: "string \<Rightarrow> pystr" where
  "py s = map of_char s"

text \<open>
  The exceptions the modelled code can raise: a failed write of the JSON file
  (\<open>open\<close>/\<open>json.dump\<close> in \<open>save_data\<close>), a missing key of the FSM data dict,
  \<open>message.text\<close> being \<open>None\<close>, and \<open>datetime + timedelta\<close> leaving the range of dates.
\<close>

datatype error = PersistenceError | KeyError pystr | AttributeError | OverflowError

section \<open>Configuration\<close>

text \<open>
  \<open>DOCTORS\<close> and \<open>AVAILABLE_TIMES\<close> of the source; the Cyrillic names are written as
  their code points. \<open>ADMIN_IDS\<close> is read from the environment at start-up and is a
  parameter \<open>admins\<close> of the handlers that test it.
\<close>

definition DOCTORS :: "pystr list" where
  "DOCTORS =
    [[1058, 1077, 1088, 1072, 1087, 1077, 1074, 1090, 32, 1048, 1074, 1072, 1085, 1086, 1074,
      1072, 32, 1040, 46, 1057, 46],
     [1061, 1080, 1088, 1091, 1088, 1075, 32, 1055, 1077, 1090, 1088, 1086, 1074, 32, 1042, 46,
      1048, 46],
     [1057, 1090, 1086, 1084, 1072, 1090, 1086, 1083, 1086, 1075, 32, 1057, 1080, 1076, 1086,
      1088, 1086, 1074, 1072, 32, 1045, 46, 1052, 46],
     [1054, 1082, 1091, 1083, 1080, 1089, 1090, 32, 1057, 1084, 1080, 1088, 1085, 1086, 1074,
      32, 1055, 46, 1040, 46],
     [1053, 1077, 1074, 1088, 1086, 1083, 1086, 1075, 32, 1050, 1086, 1079, 1083, 1086, 1074,
      1072, 32, 1053, 46, 1042, 46]]"

definition AVAILABLE_TIMES :: "pystr list" where
  "AVAILABLE_TIMES =
     [py ''09:00'', py ''10:00'', py ''11:00'', py ''12:00'',
      py ''14:00'', py ''15:00'', py ''16:00'', py ''17:00'']"

section \<open>The appointment store (class Database)\<close>

text \<open>
  An appointment is the dict built in \<open>create_appointment\<close>; the key \<open>id\<close> is the field
  \<open>apt_id\<close>. A user is the dict built in \<open>add_user\<close>; \<open>username\<close> may be \<open>None\<close>.
  \<open>self.data\<close> holds the list of appointments, the dict of users (an association list in
  insertion order, keyed by the user id: \<open>str\<close> is injective on integers) and \<open>next_id\<close>.
\<close>

record appointment =
  apt_id :: int
  user_id :: int
  patient_name :: pystr
  doctor :: pystr
  procedure :: pystr
  date :: pystr
  time :: pystr
  created_at :: pystr
  status :: pystr

record user =
  username :: "pystr option"
  first_name :: pystr
  registered_at :: pystr

record database =
  appointments :: "appointment list"
  users :: "(int \<times> user) list"
  next_id :: int

definition ACTIVE :: pystr where
  "ACTIVE = py ''active''"

definition DELETED :: pystr where
  "DELETED = py ''deleted''"

text \<open>\<open>load_data\<close> when the file does not exist.\<close>

definition initial_data :: database where
  "initial_data = \<lparr>appointments = [], users = [], next_id = 1\<rparr>"

text \<open>
  \<open>save_data\<close> writes the whole of \<open>self.data\<close> to the file. Whether the write
  succeeds is decided by the environment: \<open>ok\<close> is its answer. A failed write raises.
\<close>

definition save_data :: "bool \<Rightarrow> database \<Rightarrow> error + unit" where
  "save_data ok d = (if ok then Inr () else Inl PersistenceError)"

text \<open>
  Every mutating method returns what the caller sees (the raised error or the returned
  value) together with \<open>self.data\<close> as the call leaves it. \<open>now\<close> is
  \<open>datetime.now().isoformat()\<close>.
\<close>

definition add_user ::
  "bool \<Rightarrow> pystr \<Rightarrow> int \<Rightarrow> pystr option \<Rightarrow> pystr \<Rightarrow> database \<Rightarrow> (error + unit) \<times> database" where
  "add_user ok now uid uname fname d =
     (if map_of (users d) uid = None then
        (let d' = d\<lparr>users := users d @
                     [(uid, \<lparr>username = uname, first_name = fname, registered_at = now\<rparr>)]\<rparr>
         in (save_data ok d', d'))
      else (Inr (), d))"

definition create_appointment ::
  "bool \<Rightarrow> pystr \<Rightarrow> int \<Rightarrow> pystr \<Rightarrow> pystr \<Rightarrow> pystr \<Rightarrow> pystr \<Rightarrow> pystr \<Rightarrow> database
     \<Rightarrow> (error + int) \<times> database" where
  "create_appointment ok now uid pname doc proc dt tm d =
     (let appointment_id = next_id d;
          a = \<lparr>apt_id = appointment_id, user_id = uid, patient_name = pname, doctor = doc,
               procedure = proc, date = dt, time = tm, created_at = now, status = ACTIVE\<rparr>;
          d' = d\<lparr>appointments := appointments d @ [a], next_id := next_id d + 1\<rparr>
      in (case save_data ok d' of
            Inl e \<Rightarrow> (Inl e, d')
          | Inr _ \<Rightarrow> (Inr appointment_id, d')))"

text \<open>\<open>if user_id:\<close> is Python truthiness: \<open>None\<close> and \<open>0\<close> are false.\<close>

definition truthy :: "int option \<Rightarrow> bool" where
  "truthy u = (case u of None \<Rightarrow> False | Some n \<Rightarrow> n \<noteq> 0)"

definition get_appointments :: "database \<Rightarrow> int option \<Rightarrow> appointment list" where
  "get_appointments d u =
     (case u of
        Some n \<Rightarrow>
          (if truthy u
           then filter (\<lambda>a. user_id a = n \<and> status a = ACTIVE) (appointments d)
           else filter (\<lambda>a. status a = ACTIVE) (appointments d))
      | None \<Rightarrow> filter (\<lambda>a. status a = ACTIVE) (appointments d))"

fun find_appointment :: "int \<Rightarrow> appointment list \<Rightarrow> appointment option" where
  "find_appointment i [] = None"
| "find_appointment i (a # as) = (if apt_id a = i then Some a else find_appointment i as)"

definition get_appointment :: "database \<Rightarrow> int \<Rightarrow> appointment option" where
  "get_appointment d i = find_appointment i (appointments d)"

text \<open>
  \<open>update_appointment(appointment_id, **kwargs)\<close>: the keyword arguments are the
  assignments \<open>appointment.update(kwargs)\<close> makes, one constructor per key of the record.
\<close>

datatype kwarg =
    Set_id int
  | Set_user_id int
  | Set_patient_name pystr
  | Set_doctor pystr
  | Set_procedure pystr
  | Set_date pystr
  | Set_time pystr
  | Set_created_at pystr
  | Set_status pystr

fun assign :: "kwarg \<Rightarrow> appointment \<Rightarrow> appointment" where
  "assign (Set_id v) a = a\<lparr>apt_id := v\<rparr>"
| "assign (Set_user_id v) a = a\<lparr>user_id := v\<rparr>"
| "assign (Set_patient_name v) a = a\<lparr>patient_name := v\<rparr>"
| "assign (Set_doctor v) a = a\<lparr>doctor := v\<rparr>"
| "assign (Set_procedure v) a = a\<lparr>procedure := v\<rparr>"
| "assign (Set_date v) a = a\<lparr>date := v\<rparr>"
| "assign (Set_time v) a = a\<lparr>time := v\<rparr>"
| "assign (Set_created_at v) a = a\<lparr>created_at := v\<rparr>"
| "assign (Set_status v) a = a\<lparr>status := v\<rparr>"

definition dict_update :: "appointment \<Rightarrow> kwarg list \<Rightarrow> appointment" where
  "dict_update a kw = fold assign kw a"

text \<open>The loop of \<open>update_appointment\<close>: the first record with the id is updated.\<close>

fun update_first :: "int \<Rightarrow> kwarg list \<Rightarrow> appointment list \<Rightarrow> appointment list option" where
  "update_first i kw [] = None"
| "update_first i kw (a # as) =
     (if apt_id a = i then Some (dict_update a kw # as)
      else map_option (Cons a) (update_first i kw as))"

definition update_appointment ::
  "bool \<Rightarrow> int \<Rightarrow> kwarg list \<Rightarrow> database \<Rightarrow> (error + bool) \<times> database" where
  "update_appointment ok i kw d =
     (case update_first i kw (appointments d) of
        None \<Rightarrow> (Inr False, d)
      | Some as' \<Rightarrow>
          (let d' = d\<lparr>appointments := as'\<rparr>
           in (case save_data ok d' of
                 Inl e \<Rightarrow> (Inl e, d')
               | Inr _ \<Rightarrow> (Inr True, d'))))"

definition delete_appointment :: "bool \<Rightarrow> int \<Rightarrow> database \<Rightarrow> (error + bool) \<times> database" where
  "delete_appointment ok i d = update_appointment ok i [Set_status DELETED] d"

definition get_users :: "database \<Rightarrow> (int \<times> user) list" where
  "get_users d = users d"

text \<open>The loop of \<open>is_appointment_available\<close>, with its early return.\<close>

fun slot_free :: "appointment list \<Rightarrow> pystr \<Rightarrow> pystr \<Rightarrow> pystr \<Rightarrow> bool" where
  "slot_free [] doc dt tm = True"
| "slot_free (a # as) doc dt tm =
     (if status a = ACTIVE \<and> doctor a = doc \<and> date a = dt \<and> time a = tm then False
      else slot_free as doc dt tm)"

definition is_appointment_available :: "database \<Rightarrow> pystr \<Rightarrow> pystr \<Rightarrow> pystr \<Rightarrow> bool" where
  "is_appointment_available d doc dt tm = slot_free (appointments d) doc dt tm"

section \<open>Reasoning vocabulary for the store\<close>

text \<open>
  An appointment occupies a slot when it is active and has the slot's doctor, date and
  time: the condition tested in the loop of \<open>is_appointment_available\<close>.
\<close>

definition occupies :: "appointment \<Rightarrow> pystr \<Rightarrow> pystr \<Rightarrow> pystr \<Rightarrow> bool" where
  "occupies a doc dt tm = (status a = ACTIVE \<and> doctor a = doc \<and> date a = dt \<and> time a = tm)"

definition slot_count :: "database \<Rightarrow> pystr \<Rightarrow> pystr \<Rightarrow> pystr \<Rightarrow> nat" where
  "slot_count d doc dt tm = length (filter (\<lambda>a. occupies a doc dt tm) (appointments d))"

text \<open>
  The stores the program builds: ids are pairwise different and below \<open>next_id\<close>.
  \<open>initial_data\<close> is such a store and every call the handlers make keeps it so.
\<close>

definition wf_db :: "database \<Rightarrow> bool" where
  "wf_db d = (distinct (map apt_id (appointments d))
              \<and> list_all (\<lambda>a. apt_id a < next_id d) (appointments d))"

text \<open>
  The calls the handlers make on the global \<open>db\<close>, each with the environment's answers
  (does the write succeed, what is the time). \<open>run\<close> is \<open>self.data\<close> after a sequence of
  calls; an exception of one call does not undo what the call did to \<open>self.data\<close>.
\<close>

datatype call =
    Add_user int "pystr option" pystr
  | Create_appointment int pystr pystr pystr pystr pystr
  | Update_appointment int "kwarg list"
  | Delete_appointment int

fun exec :: "bool \<times> pystr \<times> call \<Rightarrow> database \<Rightarrow> database" where
  "exec (ok, now, Add_user uid uname fname) d = snd (add_user ok now uid uname fname d)"
| "exec (ok, now, Create_appointment uid pname doc proc dt tm) d =
     snd (create_appointment ok now uid pname doc proc dt tm d)"
| "exec (ok, now, Update_appointment i kw) d = snd (update_appointment ok i kw d)"
| "exec (ok, now, Delete_appointment i) d = snd (delete_appointment ok i d)"

definition run :: "(bool \<times> pystr \<times> call) list \<Rightarrow> database \<Rightarrow> database" where
  "run cs d = fold exec cs d"

text \<open>
  The keyword arguments the edit handlers pass to \<open>update_appointment\<close>: one of
  \<open>patient_name\<close>, \<open>doctor\<close>, \<open>procedure\<close>, \<open>date\<close>, \<open>time\<close>. Only
  \<open>delete_appointment\<close> passes \<open>status\<close>, and nothing passes \<open>id\<close>.
\<close>

fun edit_kwargs :: "kwarg list \<Rightarrow> bool" where
  "edit_kwargs [Set_patient_name v] = True"
| "edit_kwargs [Set_doctor v] = True"
| "edit_kwargs [Set_procedure v] = True"
| "edit_kwargs [Set_date v] = True"
| "edit_kwargs [Set_time v] = True"
| "edit_kwargs kw = False"

fun handler_call :: "bool \<times> pystr \<times> call \<Rightarrow> bool" where
  "handler_call (ok, now, Update_appointment i kw) = edit_kwargs kw"
| "handler_call c = True"

text \<open>
  A handler call leaves the slot of appointment \<open>i\<close> alone when it neither soft-deletes
  \<open>i\<close> nor edits the doctor, date or time of \<open>i\<close>.
\<close>

fun name_or_procedure :: "kwarg list \<Rightarrow> bool" where
  "name_or_procedure [Set_patient_name v] = True"
| "name_or_procedure [Set_procedure v] = True"
| "name_or_procedure kw = False"

fun keeps_slot :: "int \<Rightarrow> bool \<times> pystr \<times> call \<Rightarrow> bool" where
  "keeps_slot i (ok, now, Update_appointment j kw) =
     (edit_kwargs kw \<and> (j = i \<longrightarrow> name_or_procedure kw))"
| "keeps_slot i (ok, now, Delete_appointment j) = (j \<noteq> i)"
| "keeps_slot i c = True"

section \<open>Dates and keyboards\<close>

text \<open>
  \<open>datetime.now()\<close> is modelled by its proleptic Gregorian ordinal (\<open>toordinal\<close>:
  day \<open>1\<close> is 0001-01-01, the last day 9999-12-31 is \<open>3652059\<close>): adding whole days
  leaves the time of day alone and neither format prints it. Adding a \<open>timedelta\<close> past
  the last day raises \<open>OverflowError\<close>.
\<close>

definition MAXORDINAL :: nat where
  "MAXORDINAL = 3652059"

definition plus_days :: "nat \<Rightarrow> nat \<Rightarrow> error + nat" where
  "plus_days today i = (if today + i > MAXORDINAL then Inl OverflowError else Inr (today + i))"

definition is_leap :: "nat \<Rightarrow> bool" where
  "is_leap y = (y mod 4 = 0 \<and> (y mod 100 \<noteq> 0 \<or> y mod 400 = 0))"

definition days_in_month :: "nat \<Rightarrow> nat \<Rightarrow> nat" where
  "days_in_month y m =
     (if m = 2 then (if is_leap y then 29 else 28)
      else if m = 4 \<or> m = 6 \<or> m = 9 \<or> m = 11 then 30 else 31)"

text \<open>The year of an ordinal and the day within that year, counted from \<open>0\<close>.\<close>

definition year_and_day :: "nat \<Rightarrow> nat \<times> nat" where
  "year_and_day ordinal =
     (let n = ordinal - 1;
          n400 = n div 146097; r400 = n mod 146097;
          n100 = min 3 (r400 div 36524); r100 = r400 - n100 * 36524;
          n4 = r100 div 1461; r4 = r100 mod 1461;
          n1 = min 3 (r4 div 365)
      in (400 * n400 + 100 * n100 + 4 * n4 + n1 + 1, r4 - n1 * 365))"

fun month_and_day :: "nat \<Rightarrow> nat list \<Rightarrow> nat \<Rightarrow> nat \<times> nat" where
  "month_and_day y [] n = (12, n + 1)"
| "month_and_day y (m # ms) n =
     (if n < days_in_month y m then (m, n + 1)
      else month_and_day y ms (n - days_in_month y m))"

definition ymd :: "nat \<Rightarrow> nat \<times> nat \<times> nat" where
  "ymd ordinal =
     (case year_and_day ordinal of
        (y, n) \<Rightarrow> (y, month_and_day y [1, 2, 3, 4, 5, 6, 7, 8, 9, 10, 11, 12] n))"

definition digit :: "nat \<Rightarrow> nat" where
  "digit n = 48 + n mod 10"

definition two_digits :: "nat \<Rightarrow> pystr" where
  "two_digits n = [digit (n div 10), digit n]"

text \<open>\<open>str(n)\<close> of a natural number, and of an integer.\<close>

fun decimal :: "nat \<Rightarrow> pystr" where
  "decimal n = (if n < 10 then [digit n] else decimal (n div 10) @ [digit n])"

definition str_int :: "int \<Rightarrow> pystr" where
  "str_int i = (if i < 0 then 45 # decimal (nat (- i)) else decimal (nat i))"

text \<open>
  \<open>strftime("%d.%m.%Y")\<close>, with the year as the C library prints it (no padding), and
  \<open>strftime("%A")[:3]\<close> in the C locale, which the program never changes.
  \<open>weekday\<close> is \<open>0\<close> on Monday.
\<close>

definition strftime_date :: "nat \<Rightarrow> pystr" where
  "strftime_date ordinal =
     (case ymd ordinal of
        (y, m, dd) \<Rightarrow> two_digits dd @ py ''.'' @ two_digits m @ py ''.'' @ decimal y)"

definition weekday :: "nat \<Rightarrow> nat" where
  "weekday ordinal = (ordinal + 6) mod 7"

definition DAY_NAMES :: "pystr list" where
  "DAY_NAMES = [py ''Monday'', py ''Tuesday'', py ''Wednesday'', py ''Thursday'',
                py ''Friday'', py ''Saturday'', py ''Sunday'']"

definition day_name3 :: "nat \<Rightarrow> pystr" where
  "day_name3 ordinal = take 3 (DAY_NAMES ! weekday ordinal)"

text \<open>
  An \<open>InlineKeyboardButton\<close> has a text and callback data; a keyboard is a list of rows.
  \<open>BACK\<close> is the text of the back button.
\<close>

record button =
  btn_text :: pystr
  callback_data :: pystr

type_synonym keyboard = "button list list"

definition BACK :: pystr where
  "BACK = [9664, 65039, 32, 1053, 1072, 1079, 1072, 1076]"

text \<open>A \<open>for\<close> loop that appends one row per index and stops at the first exception.\<close>

fun for_each :: "(nat \<Rightarrow> error + 'a) \<Rightarrow> nat list \<Rightarrow> error + 'a list" where
  "for_each f [] = Inr []"
| "for_each f (i # is) =
     (case f i of
        Inl e \<Rightarrow> Inl e
      | Inr x \<Rightarrow> (case for_each f is of Inl e \<Rightarrow> Inl e | Inr xs \<Rightarrow> Inr (x # xs)))"

definition get_doctors_keyboard :: keyboard where
  "get_doctors_keyboard =
     map (\<lambda>doc. [\<lparr>btn_text = doc, callback_data = py ''select_doctor:'' @ doc\<rparr>]) DOCTORS
     @ [[\<lparr>btn_text = BACK, callback_data = py ''main_menu''\<rparr>]]"

definition get_dates_keyboard :: "nat \<Rightarrow> error + keyboard" where
  "get_dates_keyboard today =
     (case for_each
             (\<lambda>i. case plus_days today i of
                     Inl e \<Rightarrow> Inl e
                   | Inr dt \<Rightarrow>
                       Inr [\<lparr>btn_text = strftime_date dt @ py '' ('' @ day_name3 dt @ py '')'',
                             callback_data = py ''select_date:'' @ strftime_date dt\<rparr>])
             [0..<7] of
        Inl e \<Rightarrow> Inl e
      | Inr buttons \<Rightarrow>
          Inr (buttons @ [[\<lparr>btn_text = BACK, callback_data = py ''select_doctor''\<rparr>]]))"


definition get_doctors_keyboard_for_edit :: keyboard where
  "get_doctors_keyboard_for_edit =
     map (\<lambda>doc. [\<lparr>btn_text = doc, callback_data = py ''edit_select_doctor:'' @ doc\<rparr>]) DOCTORS"

text \<open>
  The keyboards built inside \<open>process_callback_edit_date\<close> (its loop runs over
  \<open>range(14)\<close>) and inside \<open>process_callback_edit_time\<close>.
\<close>

definition edit_date_buttons :: "nat \<Rightarrow> int \<Rightarrow> error + keyboard" where
  "edit_date_buttons today appointment_id =
     (case for_each
             (\<lambda>i. case plus_days today i of
                     Inl e \<Rightarrow> Inl e
                   | Inr dt \<Rightarrow>
                       Inr [\<lparr>btn_text = strftime_date dt @ py '' ('' @ day_name3 dt @ py '')'',
                             callback_data = py ''edit_select_date:'' @ strftime_date dt\<rparr>])
             [0..<14] of
        Inl e \<Rightarrow> Inl e
      | Inr buttons \<Rightarrow>
          Inr (buttons @ [[\<lparr>btn_text = BACK,
                 callback_data = py ''view_appointment:'' @ str_int appointment_id\<rparr>]]))"

definition edit_time_buttons :: "int \<Rightarrow> keyboard" where
  "edit_time_buttons appointment_id =
     map (\<lambda>tm. [\<lparr>btn_text = tm, callback_data = py ''edit_select_time:'' @ tm\<rparr>])
       AVAILABLE_TIMES
     @ [[\<lparr>btn_text = BACK, callback_data = py ''view_appointment:'' @ str_int appointment_id\<rparr>]]"

text \<open>
  What a date keyboard offers: the texts of its date rows (every row but the back button)
  and the dates their callback data carry after the prefix.
\<close>

definition date_choices :: "keyboard \<Rightarrow> pystr list" where
  "date_choices kb = map btn_text (concat (butlast kb))"

definition date_payloads :: "pystr \<Rightarrow> keyboard \<Rightarrow> pystr list" where
  "date_payloads pre kb = map (\<lambda>b. drop (length pre) (callback_data b)) (concat (butlast kb))"

text \<open>The text and the date a date row shows for the day \<open>today + i\<close>.\<close>

definition date_label :: "nat \<Rightarrow> pystr" where
  "date_label dt = strftime_date dt @ py '' ('' @ day_name3 dt @ py '')''"

section \<open>The wizards (handlers)\<close>

text \<open>
  \<open>str.strip()\<close> removes the code points for which \<open>str.isspace\<close> holds from both ends.
\<close>

definition isspace :: "nat \<Rightarrow> bool" where
  "isspace c =
     ((9 \<le> c \<and> c \<le> 13) \<or> (28 \<le> c \<and> c \<le> 32) \<or> c = 133 \<or> c = 160 \<or> c = 5760
      \<or> (8192 \<le> c \<and> c \<le> 8202) \<or> c = 8232 \<or> c = 8233 \<or> c = 8239 \<or> c = 8287
      \<or> c = 12288)"

definition strip :: "pystr \<Rightarrow> pystr" where
  "strip s = rev (dropWhile isspace (rev (dropWhile isspace s)))"

text \<open>
  The states of \<open>AppointmentStates\<close> and \<open>EditStates\<close>. A session is what the
  \<open>FSMContext\<close> of the calling user holds: the current state (\<open>None\<close> when there is
  none) and the data dict, one optional field per key the program stores.
  \<open>state.clear()\<close> leaves \<open>no_session\<close>.
\<close>

datatype fsm_state =
    waiting_for_patient_name
  | waiting_for_doctor
  | waiting_for_procedure
  | waiting_for_date
  | waiting_for_time
  | waiting_for_confirmation
  | waiting_for_new_patient_name
  | waiting_for_new_doctor
  | waiting_for_new_procedure
  | waiting_for_new_date
  | waiting_for_new_time

record session =
  state :: "fsm_state option"
  data_patient_name :: "pystr option"
  data_doctor :: "pystr option"
  data_procedure :: "pystr option"
  data_date :: "pystr option"
  data_time :: "pystr option"
  data_edit_appointment_id :: "int option"

definition no_session :: session where
  "no_session = \<lparr>state = None, data_patient_name = None, data_doctor = None,
     data_procedure = None, data_date = None, data_time = None,
     data_edit_appointment_id = None\<rparr>"

text \<open>
  What a handler sends, one constructor per message of the modelled handlers; the
  keyboards are carried where a claim is about the choices offered. \<open>Main_menu\<close> carries
  \<open>is_admin\<close>. Sending is taken to succeed: the transport is outside the model.
\<close>

datatype reply =
    Name_rejected
  | Choose_doctor keyboard
  | Choose_date keyboard
  | Time_taken keyboard
  | Check_details pystr pystr pystr pystr pystr
  | Created int pystr pystr pystr pystr pystr
  | Main_menu bool
  | Cancel_done bool
  | Cancel_failed bool
  | Access_denied
  | Choose_new_doctor keyboard
  | Choose_new_date keyboard
  | Choose_new_time keyboard
  | Doctor_updated
  | Doctor_not_updated
  | Date_updated
  | Date_not_updated
  | Time_updated
  | Time_not_updated
  | Welcome pystr bool
  | Help_text
  | Goodbye
  | New_name_rejected
  | Name_updated
  | Name_not_updated

text \<open>
  A handler run ends with the session of the caller, the store, the messages sent and the
  exception that left the handler, if any. What the handler did before the exception
  stays done.
\<close>

record handler_result =
  raised :: "error option"
  sess :: session
  store :: database
  replies :: "reply list"

definition finish :: "session \<Rightarrow> database \<Rightarrow> reply list \<Rightarrow> handler_result" where
  "finish s d rs = \<lparr>raised = None, sess = s, store = d, replies = rs\<rparr>"

definition raises :: "error \<Rightarrow> session \<Rightarrow> database \<Rightarrow> handler_result" where
  "raises e s d = \<lparr>raised = Some e, sess = s, store = d, replies = []\<rparr>"

subsection \<open>Booking\<close>

text \<open>\<open>process_patient_name\<close>; \<open>txt\<close> is \<open>message.text\<close>, \<open>None\<close> for a message without text.\<close>

definition process_patient_name :: "pystr option \<Rightarrow> session \<Rightarrow> database \<Rightarrow> handler_result" where
  "process_patient_name txt s d =
     (case txt of
        None \<Rightarrow> raises AttributeError s d
      | Some t \<Rightarrow>
          (let patient_name = strip t
           in if length patient_name < 2 \<or> length patient_name > 50
              then finish s d [Name_rejected]
              else finish (s\<lparr>data_patient_name := Some patient_name,
                             state := Some waiting_for_doctor\<rparr>) d
                     [Choose_doctor get_doctors_keyboard]))"

text \<open>
  \<open>process_callback_select_procedure\<close>, the entry of the date step: the procedure is
  stored, then \<open>get_dates_keyboard()\<close> is rendered for \<open>today\<close>.
\<close>

definition process_callback_select_procedure ::
  "nat \<Rightarrow> pystr \<Rightarrow> session \<Rightarrow> database \<Rightarrow> handler_result" where
  "process_callback_select_procedure today proc s d =
     (let s1 = s\<lparr>data_procedure := Some proc\<rparr>
      in case get_dates_keyboard today of
           Inl e \<Rightarrow> raises e s1 d
         | Inr kb \<Rightarrow> finish (s1\<lparr>state := Some waiting_for_date\<rparr>) d [Choose_date kb])"



text \<open>
  \<open>process_callback_cancel_appointment\<close>: the handler has no state filter and takes no
  \<open>state\<close>; \<open>appointment_id\<close> is \<open>int(callback.data.split(':')[1])\<close>.
\<close>

definition process_callback_cancel_appointment ::
  "bool \<Rightarrow> int list \<Rightarrow> int \<Rightarrow> int \<Rightarrow> session \<Rightarrow> database \<Rightarrow> handler_result" where
  "process_callback_cancel_appointment ok admins uid appointment_id s d =
     (case delete_appointment ok appointment_id d of
        (Inl e, d') \<Rightarrow> raises e s d'
      | (Inr True, d') \<Rightarrow> finish s d' [Cancel_done (uid \<in> set admins)]
      | (Inr False, d') \<Rightarrow> finish s d' [Cancel_failed (uid \<in> set admins)])"

subsection \<open>Editing (administrators)\<close>

text \<open>
  The entry handlers test \<open>ADMIN_IDS\<close>, store \<open>edit_appointment_id\<close> and set the state.
  The selection handlers read \<open>data.get('edit_appointment_id')\<close>: when it is \<open>None\<close>,
  no record's id equals it and \<open>update_appointment\<close> returns \<open>False\<close> without writing.
\<close>

definition process_callback_edit_doctor ::
  "int list \<Rightarrow> int \<Rightarrow> int \<Rightarrow> session \<Rightarrow> database \<Rightarrow> handler_result" where
  "process_callback_edit_doctor admins uid appointment_id s d =
     (if uid \<notin> set admins then finish s d [Access_denied]
      else finish (s\<lparr>data_edit_appointment_id := Some appointment_id,
                     state := Some waiting_for_new_doctor\<rparr>) d
             [Choose_new_doctor get_doctors_keyboard_for_edit])"

definition process_callback_edit_date ::
  "int list \<Rightarrow> nat \<Rightarrow> int \<Rightarrow> int \<Rightarrow> session \<Rightarrow> database \<Rightarrow> handler_result" where
  "process_callback_edit_date admins today uid appointment_id s d =
     (if uid \<notin> set admins then finish s d [Access_denied]
      else
        (let s1 = s\<lparr>data_edit_appointment_id := Some appointment_id\<rparr>
         in case edit_date_buttons today appointment_id of
              Inl e \<Rightarrow> raises e s1 d
            | Inr kb \<Rightarrow>
                finish (s1\<lparr>state := Some waiting_for_new_date\<rparr>) d [Choose_new_date kb]))"

definition process_callback_edit_time ::
  "int list \<Rightarrow> int \<Rightarrow> int \<Rightarrow> session \<Rightarrow> database \<Rightarrow> handler_result" where
  "process_callback_edit_time admins uid appointment_id s d =
     (if uid \<notin> set admins then finish s d [Access_denied]
      else finish (s\<lparr>data_edit_appointment_id := Some appointment_id,
                     state := Some waiting_for_new_time\<rparr>) d
             [Choose_new_time (edit_time_buttons appointment_id)])"

text \<open>
  The common shape of the three selection handlers: one keyword argument, the success or
  failure message, then \<open>state.clear()\<close>.
\<close>

definition apply_edit ::
  "bool \<Rightarrow> kwarg \<Rightarrow> reply \<Rightarrow> reply \<Rightarrow> session \<Rightarrow> database \<Rightarrow> handler_result" where
  "apply_edit ok kw done failed s d =
     (case data_edit_appointment_id s of
        None \<Rightarrow> finish no_session d [failed]
      | Some appointment_id \<Rightarrow>
          (case update_appointment ok appointment_id [kw] d of
             (Inl e, d') \<Rightarrow> raises e s d'
           | (Inr True, d') \<Rightarrow> finish no_session d' [done]
           | (Inr False, d') \<Rightarrow> finish no_session d' [failed]))"

definition process_callback_select_new_doctor ::
  "bool \<Rightarrow> pystr \<Rightarrow> session \<Rightarrow> database \<Rightarrow> handler_result" where
  "process_callback_select_new_doctor ok doc s d =
     apply_edit ok (Set_doctor doc) Doctor_updated Doctor_not_updated s d"

definition process_callback_select_new_date ::
  "bool \<Rightarrow> pystr \<Rightarrow> session \<Rightarrow> database \<Rightarrow> handler_result" where
  "process_callback_select_new_date ok dt s d =
     apply_edit ok (Set_date dt) Date_updated Date_not_updated s d"

definition process_callback_select_new_time ::
  "bool \<Rightarrow> pystr \<Rightarrow> session \<Rightarrow> database \<Rightarrow> handler_result" where
  "process_callback_select_new_time ok tm s d =
     apply_edit ok (Set_time tm) Time_updated Time_not_updated s d"

subsection \<open>State filters\<close>

text \<open>
  The \<open>StateFilter\<close> of a handler's decorator: the handler runs only in its state; in any
  other state the event does not reach it (\<open>None\<close>) and nothing changes.
\<close>

definition in_state ::
  "fsm_state \<Rightarrow> (session \<Rightarrow> database \<Rightarrow> handler_result) \<Rightarrow> session \<Rightarrow> database
     \<Rightarrow> handler_result option" where
  "in_state st handler s d = (if state s = Some st then Some (handler s d) else None)"

definition on_select_procedure ::
  "nat \<Rightarrow> pystr \<Rightarrow> session \<Rightarrow> database \<Rightarrow> handler_result option" where
  "on_select_procedure today proc =
     in_state waiting_for_procedure (process_callback_select_procedure today proc)"



definition on_select_new_doctor ::
  "bool \<Rightarrow> pystr \<Rightarrow> session \<Rightarrow> database \<Rightarrow> handler_result option" where
  "on_select_new_doctor ok doc =
     in_state waiting_for_new_doctor (process_callback_select_new_doctor ok doc)"

definition on_select_new_date ::
  "bool \<Rightarrow> pystr \<Rightarrow> session \<Rightarrow> database \<Rightarrow> handler_result option" where
  "on_select_new_date ok dt =
     in_state waiting_for_new_date (process_callback_select_new_date ok dt)"

definition on_select_new_time ::
  "bool \<Rightarrow> pystr \<Rightarrow> session \<Rightarrow> database \<Rightarrow> handler_result option" where
  "on_select_new_time ok tm =
     in_state waiting_for_new_time (process_callback_select_new_time ok tm)"

subsection \<open>Message handlers, in the order of registration\<close>

text \<open>
  A message has a text or a caption or neither; its sender is \<open>message.from_user\<close>.
\<close>

record message =
  msg_text :: "pystr option"
  msg_caption :: "pystr option"

record sender =
  sender_id :: int
  sender_username :: "pystr option"
  sender_first_name :: pystr

text \<open>
  The filter \<open>Command(name)\<close> of the aiogram library, with its defaults: it reads
  \<open>message.text or message.caption\<close>, takes the first whitespace-separated token
  (\<open>text.split(maxsplit=1)[0]\<close>), and accepts when the token starts with the prefix
  \<open>/\<close>, the part up to the first \<open>@\<close> equals the name, and the part after it, when
  there is one, names the bot. \<open>me\<close> answers the last question: the bot's user name is
  known to Telegram only.
\<close>

definition first_token :: "pystr \<Rightarrow> pystr" where
  "first_token t = takeWhile (\<lambda>c. \<not> isspace c) (dropWhile isspace t)"

definition text_or_caption :: "message \<Rightarrow> pystr option" where
  "text_or_caption m =
     (case msg_text m of
        None \<Rightarrow> msg_caption m
      | Some t \<Rightarrow> (if t = [] then msg_caption m else Some t))"

definition command_filter :: "(pystr \<Rightarrow> bool) \<Rightarrow> pystr \<Rightarrow> message \<Rightarrow> bool" where
  "command_filter me name m =
     (case text_or_caption m of
        None \<Rightarrow> False
      | Some t \<Rightarrow>
          (case first_token t of
             [] \<Rightarrow> False
           | pre # rest \<Rightarrow>
               (let command = takeWhile (\<lambda>c. c \<noteq> 64) rest;
                    mention = drop 1 (dropWhile (\<lambda>c. c \<noteq> 64) rest)
                in pre = 47 \<and> (mention = [] \<or> me mention) \<and> command = name)))"

text \<open>\<open>cmd_start\<close>, \<open>cmd_help\<close>, \<open>cmd_menu\<close> and \<open>cmd_stop\<close>: none takes the FSM state.\<close>

definition cmd_start ::
  "bool \<Rightarrow> pystr \<Rightarrow> int list \<Rightarrow> sender \<Rightarrow> session \<Rightarrow> database \<Rightarrow> handler_result" where
  "cmd_start ok now admins u s d =
     (case add_user ok now (sender_id u) (sender_username u) (sender_first_name u) d of
        (Inl e, d') \<Rightarrow> raises e s d'
      | (Inr _, d') \<Rightarrow>
          finish s d' [Welcome (sender_first_name u) (sender_id u \<in> set admins)])"

definition cmd_help :: "session \<Rightarrow> database \<Rightarrow> handler_result" where
  "cmd_help s d = finish s d [Help_text]"

definition cmd_menu :: "int list \<Rightarrow> sender \<Rightarrow> session \<Rightarrow> database \<Rightarrow> handler_result" where
  "cmd_menu admins u s d = finish s d [Main_menu (sender_id u \<in> set admins)]"

definition cmd_stop :: "session \<Rightarrow> database \<Rightarrow> handler_result" where
  "cmd_stop s d = finish s d [Goodbye]"

text \<open>
  \<open>process_new_patient_name\<close>: the id is read with \<open>data.get\<close>, the text is stripped
  and checked, then the name is updated as in the other edit flows.
\<close>

definition process_new_patient_name ::
  "bool \<Rightarrow> pystr option \<Rightarrow> session \<Rightarrow> database \<Rightarrow> handler_result" where
  "process_new_patient_name ok txt s d =
     (case txt of
        None \<Rightarrow> raises AttributeError s d
      | Some t \<Rightarrow>
          (let new_name = strip t
           in if length new_name < 2 \<or> length new_name > 50
              then finish s d [New_name_rejected]
              else apply_edit ok (Set_patient_name new_name) Name_updated Name_not_updated s d))"

text \<open>
  The dispatcher runs the first message handler whose filters pass, in the order of the
  decorators in the source: the four command handlers, which have no state filter, then
  \<open>process_patient_name\<close> and \<open>process_new_patient_name\<close> in their states. A message
  that no handler takes changes nothing (\<open>None\<close>).
\<close>

definition bot_command :: "(pystr \<Rightarrow> bool) \<Rightarrow> message \<Rightarrow> bool" where
  "bot_command me m =
     (command_filter me (py ''start'') m \<or> command_filter me (py ''help'') m
      \<or> command_filter me (py ''menu'') m \<or> command_filter me (py ''stop'') m)"

definition on_message ::
  "bool \<Rightarrow> pystr \<Rightarrow> int list \<Rightarrow> (pystr \<Rightarrow> bool) \<Rightarrow> sender \<Rightarrow> message \<Rightarrow> session \<Rightarrow> database
     \<Rightarrow> handler_result option" where
  "on_message ok now admins me u m s d =
     (if command_filter me (py ''start'') m then Some (cmd_start ok now admins u s d)
      else if command_filter me (py ''help'') m then Some (cmd_help s d)
      else if command_filter me (py ''menu'') m then Some (cmd_menu admins u s d)
      else if command_filter me (py ''stop'') m then Some (cmd_stop s d)
      else if state s = Some waiting_for_patient_name
           then Some (process_patient_name (msg_text m) s d)
      else if state s = Some waiting_for_new_patient_name
           then Some (process_new_patient_name ok (msg_text m) s d)
      else None)"

section \<open>Example stores\<close>

text \<open>
  Concrete stores on which the theorems below are evaluated: the store after one booking
  with the first doctor of the roster, the store after one registration, and a sequence
  of later calls that leave appointment \<open>1\<close> and its slot alone.
\<close>

definition example_now :: pystr where
  "example_now = py ''2026-11-04T10:00:00''"

definition example_booking :: database where
  "example_booking =
     snd (create_appointment True example_now 7 (py ''Ivan Petrov'') (hd DOCTORS)
            (py ''Consultation'') (py ''05.11.2026'') (py ''09:00'') initial_data)"

definition example_calls :: "(bool \<times> pystr \<times> call) list" where
  "example_calls =
     [(True, example_now, Add_user 8 None (py ''Anna'')),
      (True, example_now, Create_appointment 8 (py ''Anna Sidorova'') (DOCTORS ! 1)
         (py ''Consultation'') (py ''05.11.2026'') (py ''09:00'')),
      (False, example_now, Update_appointment 1 [Set_patient_name (py ''I. Petrov'')]),
      (True, example_now, Delete_appointment 2)]"

definition example_users :: database where
  "example_users =
     snd (add_user True example_now 7 (Some (py ''ivan'')) (py ''Ivan'') initial_data)"

definition example_me :: "pystr \<Rightarrow> bool" where
  "example_me mention = (mention = py ''clinic_bot'')"

definition example_sender :: sender where
  "example_sender = \<lparr>sender_id = 7, sender_username = Some (py ''ivan''),
     sender_first_name = py ''Ivan''\<rparr>"

definition text_message :: "pystr \<Rightarrow> message" where
  "text_message t = \<lparr>msg_text = Some t, msg_caption = None\<rparr>"

definition example_name_session :: session where
  "example_name_session = no_session\<lparr>state := Some waiting_for_patient_name\<rparr>"

definition example_two_bookings :: database where
  "example_two_bookings =
     snd (create_appointment True example_now 8 (py ''Anna Sidorova'') (DOCTORS ! 1)
            (py ''Consultation'') (py ''05.11.2026'') (py ''09:00'') example_booking)"



section \<open>Facts about the store\<close>

lemma py_active_deleted: "ACTIVE \<noteq> DELETED"
  by (simp add: ACTIVE_def DELETED_def py_def)

lemma map_of_append_new:
  "map_of xs k = None \<Longrightarrow> map_of (xs @ [(k, v)]) k = Some v"
  by (induction xs) auto

subsection \<open>Owner filter of get_appointments\<close>

text \<open>
  Claim C9. The owner filter of \<open>get_appointments\<close> applies to truthy ids only: with
  owner id \<open>0\<close>, as with \<open>None\<close>, the call returns every active appointment of the store,
  whoever owns it, and not the appointments of user \<open>0\<close>.
\<close>

theorem get_appointments_falsy_owner:
  "get_appointments d (Some 0) = filter (\<lambda>a. status a = ACTIVE) (appointments d)
   \<and> get_appointments d None = filter (\<lambda>a. status a = ACTIVE) (appointments d)
   \<and> get_appointments d (Some 0) = get_appointments d None"
  by (simp add: get_appointments_def truthy_def)

theorem get_appointments_falsy_owner_witness:
  "map user_id (appointments example_booking) = [7]
   \<and> map apt_id (get_appointments example_booking (Some 0)) = [1]
   \<and> get_appointments example_booking (Some 7) = get_appointments example_booking (Some 0)"
proof -
  have a: "appointments example_booking =
     [\<lparr>apt_id = 1, user_id = 7, patient_name = py ''Ivan Petrov'', doctor = hd DOCTORS,
       procedure = py ''Consultation'', date = py ''05.11.2026'', time = py ''09:00'',
       created_at = example_now, status = ACTIVE\<rparr>]"
    by (simp add: example_booking_def create_appointment_def initial_data_def save_data_def
        Let_def)
  from get_appointments_falsy_owner[of example_booking]
  have "get_appointments example_booking (Some 0)
          = filter (\<lambda>a. status a = ACTIVE) (appointments example_booking)"
    by blast
  then show ?thesis
    by (simp add: a get_appointments_def truthy_def)
qed

subsection \<open>Lookup and update in the list of appointments\<close>

lemma slot_free_iff:
  "slot_free as doc dt tm = (\<forall>a\<in>set as. \<not> occupies a doc dt tm)"
  by (induction as) (auto simp: occupies_def)

lemma update_first_None_iff:
  "update_first i kw as = None \<longleftrightarrow> i \<notin> apt_id ` set as"
  by (induction as) auto

lemma find_appointment_None_iff:
  "find_appointment i as = None \<longleftrightarrow> i \<notin> apt_id ` set as"
  by (induction as) auto

lemma find_appointment_Some:
  "find_appointment i as = Some a \<Longrightarrow> a \<in> set as \<and> apt_id a = i"
  by (induction as) (auto split: if_splits)

lemma find_appointment_distinct:
  "distinct (map apt_id as) \<Longrightarrow> a \<in> set as \<Longrightarrow> find_appointment (apt_id a) as = Some a"
  by (induction as) (auto simp: rev_image_eqI)

lemma update_first_distinct:
  "distinct (map apt_id as) \<Longrightarrow> i \<in> apt_id ` set as \<Longrightarrow>
   update_first i kw as = Some (map (\<lambda>a. if apt_id a = i then dict_update a kw else a) as)"
proof (induction as)
  case Nil
  then show ?case by simp
next
  case (Cons a as)
  show ?case
  proof (cases "apt_id a = i")
    case True
    with Cons.prems have "i \<notin> apt_id ` set as" by auto
    then have "map (\<lambda>a. if apt_id a = i then dict_update a kw else a) as = as"
      by (intro map_idI) auto
    with True show ?thesis by simp
  next
    case False
    with Cons show ?thesis by auto
  qed
qed

text \<open>update_first changes exactly one element: shape of the result\<close>
lemma update_first_SomeD:
  "update_first i kw as = Some as' \<Longrightarrow>
   \<exists>xs a ys. as = xs @ a # ys \<and> apt_id a = i \<and> i \<notin> apt_id ` set xs
             \<and> as' = xs @ dict_update a kw # ys"
proof (induction as arbitrary: as')
  case Nil
  then show ?case by simp
next
  case (Cons b bs)
  show ?case
  proof (cases "apt_id b = i")
    case True
    with Cons.prems have "as' = dict_update b kw # bs" by simp
    with True show ?thesis by (intro exI[of _ "[]"] exI[of _ b] exI[of _ bs]) simp
  next
    case False
    with Cons.prems obtain cs where cs: "update_first i kw bs = Some cs" "as' = b # cs"
      by auto
    from Cons.IH[OF cs(1)] obtain xs a ys where
      "bs = xs @ a # ys" "apt_id a = i" "i \<notin> apt_id ` set xs" "cs = xs @ dict_update a kw # ys"
      by blast
    with False cs(2) show ?thesis
      by (intro exI[of _ "b # xs"] exI[of _ a] exI[of _ ys]) auto
  qed
qed

lemma edit_kwargs_keeps:
  "edit_kwargs kw \<Longrightarrow> apt_id (dict_update a kw) = apt_id a \<and> status (dict_update a kw) = status a"
  by (induction kw rule: edit_kwargs.induct) (simp_all add: dict_update_def)

lemma name_or_procedure_keeps:
  "name_or_procedure kw \<Longrightarrow> occupies (dict_update a kw) doc dt tm = occupies a doc dt tm"
  by (induction kw rule: name_or_procedure.induct) (simp_all add: dict_update_def occupies_def)

lemma dict_update_deleted [simp]:
  "dict_update a [Set_status v] = a\<lparr>status := v\<rparr>"
  by (simp add: dict_update_def)


lemma appointments_create:
  "appointments (snd (create_appointment ok now uid pname doc proc dt tm d)) =
     appointments d @ [\<lparr>apt_id = next_id d, user_id = uid, patient_name = pname, doctor = doc,
        procedure = proc, date = dt, time = tm, created_at = now, status = ACTIVE\<rparr>]"
  by (simp add: create_appointment_def Let_def save_data_def)

lemma next_id_create:
  "next_id (snd (create_appointment ok now uid pname doc proc dt tm d)) = next_id d + 1"
  by (simp add: create_appointment_def Let_def save_data_def)

lemma appointments_add_user:
  "appointments (snd (add_user ok now uid un fn d)) = appointments d
   \<and> next_id (snd (add_user ok now uid un fn d)) = next_id d"
  by (simp add: add_user_def Let_def)

lemma next_id_update:
  "next_id (snd (update_appointment ok i kw d)) = next_id d"
  by (simp add: update_appointment_def Let_def save_data_def split: option.splits)

lemma appointments_update:
  assumes "distinct (map apt_id (appointments d))"
  shows "appointments (snd (update_appointment ok i kw d)) =
           map (\<lambda>a. if apt_id a = i then dict_update a kw else a) (appointments d)"
proof (cases "i \<in> apt_id ` set (appointments d)")
  case True
  from update_first_distinct[OF assms True, of kw] show ?thesis
    by (simp add: update_appointment_def Let_def save_data_def)
next
  case False
  then have "update_first i kw (appointments d) = None"
    by (simp add: update_first_None_iff)
  moreover from False
  have "map (\<lambda>a. if apt_id a = i then dict_update a kw else a) (appointments d) = appointments d"
    by (intro map_idI) auto
  ultimately show ?thesis by (simp add: update_appointment_def)
qed

lemma wf_db_initial: "wf_db initial_data"
  by (simp add: wf_db_def initial_data_def)

lemma wf_db_create:
  assumes "wf_db d"
  shows "wf_db (snd (create_appointment ok now uid pname doc proc dt tm d))"
proof -
  from assms have lt: "\<forall>a\<in>set (appointments d). apt_id a < next_id d"
    and dist: "distinct (map apt_id (appointments d))"
    by (simp_all add: wf_db_def list_all_iff)
  from lt have "next_id d \<notin> apt_id ` set (appointments d)" by auto
  with lt dist show ?thesis
    unfolding wf_db_def appointments_create next_id_create
    by (auto simp: list_all_iff)
qed

lemma wf_db_update:
  assumes "wf_db d" and "\<And>a. apt_id (dict_update a kw) = apt_id a"
  shows "wf_db (snd (update_appointment ok i kw d))"
proof -
  from assms(1) have dist: "distinct (map apt_id (appointments d))"
    by (simp add: wf_db_def)
  have ids: "map apt_id (map (\<lambda>a. if apt_id a = i then dict_update a kw else a) (appointments d))
          = map apt_id (appointments d)"
    by (induction "appointments d") (simp_all add: assms(2))
  have d2: "distinct (map apt_id
      (map (\<lambda>a. if apt_id a = i then dict_update a kw else a) (appointments d)))"
    unfolding ids by (rule dist)
  from assms(1) have l2: "list_all (\<lambda>a. apt_id a < next_id d)
     (map (\<lambda>a. if apt_id a = i then dict_update a kw else a) (appointments d))"
    by (auto simp: wf_db_def list_all_iff assms(2))
  show ?thesis
    unfolding wf_db_def appointments_update[OF dist] next_id_update
    using d2 l2 by (rule conjI)
qed

lemma wf_db_exec:
  assumes "wf_db d" and "handler_call c"
  shows "wf_db (exec c d)"
proof -
  obtain ok now k where c: "c = (ok, now, k)" by (cases c)
  show ?thesis
  proof (cases k)
    case (Add_user uid un fn)
    with assms(1) c show ?thesis
      by (simp add: wf_db_def appointments_add_user)
  next
    case (Create_appointment uid pn doc pr dt tm)
    with assms(1) c show ?thesis by (simp add: wf_db_create)
  next
    case (Update_appointment i kw)
    with assms c have "edit_kwargs kw" by simp
    then have "\<And>a. apt_id (dict_update a kw) = apt_id a" by (simp add: edit_kwargs_keeps)
    with assms(1) c Update_appointment show ?thesis by (simp add: wf_db_update)
  next
    case (Delete_appointment i)
    with assms(1) c show ?thesis by (simp add: delete_appointment_def wf_db_update)
  qed
qed

lemma wf_db_run: "wf_db d \<Longrightarrow> list_all handler_call cs \<Longrightarrow> wf_db (run cs d)"
  unfolding run_def
  by (induction cs arbitrary: d) (simp_all add: wf_db_exec)


text \<open>Every store the program reaches from the empty one is well-formed.\<close>

lemma wf_db_reachable: "list_all handler_call cs \<Longrightarrow> wf_db (run cs initial_data)"
  by (rule wf_db_run[OF wf_db_initial])

lemmas example_defs = example_now_def example_booking_def example_calls_def DOCTORS_def
  initial_data_def create_appointment_def update_appointment_def delete_appointment_def
  add_user_def save_data_def get_appointment_def is_appointment_available_def
  dict_update_def run_def wf_db_def occupies_def ACTIVE_def DELETED_def py_def Let_def


subsection \<open>Slot availability after booking, editing and soft delete\<close>

lemma slot_inv_exec:
  assumes wf: "wf_db d"
      and a: "a \<in> set (appointments d)" "apt_id a = i" "occupies a doc dt tm"
      and k: "keeps_slot i c"
  shows "\<exists>b\<in>set (appointments (exec c d)). apt_id b = i \<and> occupies b doc dt tm"
proof -
  obtain ok now k' where c: "c = (ok, now, k')" by (cases c)
  from wf have dist: "distinct (map apt_id (appointments d))" by (simp add: wf_db_def)
  show ?thesis
  proof (cases k')
    case (Add_user uid un fn)
    with a c show ?thesis by (auto simp: appointments_add_user)
  next
    case (Create_appointment uid pn doc' pr dt' tm')
    with a c show ?thesis by (auto simp: appointments_create)
  next
    case (Update_appointment j kw)
    with k c have ek: "edit_kwargs kw" and np: "j = i \<longrightarrow> name_or_procedure kw" by simp_all
    let ?f = "\<lambda>a. if apt_id a = j then dict_update a kw else a"
    from a(1) have "?f a \<in> set (appointments (exec c d))"
      using c Update_appointment by (simp add: appointments_update[OF dist])
    moreover have "apt_id (?f a) = i" using a(2) ek by (simp add: edit_kwargs_keeps)
    moreover have "occupies (?f a) doc dt tm"
      using a(2,3) np by (auto simp: name_or_procedure_keeps)
    ultimately show ?thesis by blast
  next
    case (Delete_appointment j)
    with k c have "j \<noteq> i" by simp
    with a c Delete_appointment show ?thesis
      by (auto simp: delete_appointment_def appointments_update[OF dist])
  qed
qed

lemma keeps_slot_handler_call: "keeps_slot i c \<Longrightarrow> handler_call c"
  by (induction i c rule: keeps_slot.induct) simp_all

lemma slot_inv_run:
  "wf_db d \<Longrightarrow> \<exists>a\<in>set (appointments d). apt_id a = i \<and> occupies a doc dt tm \<Longrightarrow>
   list_all (keeps_slot i) cs \<Longrightarrow>
   wf_db (run cs d) \<and> (\<exists>b\<in>set (appointments (run cs d)). apt_id b = i \<and> occupies b doc dt tm)"
proof (induction cs arbitrary: d)
  case Nil
  then show ?case by (simp add: run_def)
next
  case (Cons c cs)
  from Cons.prems have k: "keeps_slot i c" and ks: "list_all (keeps_slot i) cs" by simp_all
  from Cons.prems(1) k have wf': "wf_db (exec c d)"
    by (simp add: wf_db_exec keeps_slot_handler_call)
  from Cons.prems(2) obtain a where "a \<in> set (appointments d)" "apt_id a = i" "occupies a doc dt tm"
    by blast
  from slot_inv_exec[OF Cons.prems(1) this k]
  have "\<exists>b\<in>set (appointments (exec c d)). apt_id b = i \<and> occupies b doc dt tm" .
  from Cons.IH[OF wf' this ks] show ?case by (simp add: run_def)
qed

lemma available_after_delete:
  assumes "wf_db d"
  shows "is_appointment_available (snd (delete_appointment ok i d)) doc dt tm
         = (\<forall>a\<in>set (appointments d). apt_id a \<noteq> i \<longrightarrow> \<not> occupies a doc dt tm)"
proof -
  from assms have dist: "distinct (map apt_id (appointments d))" by (simp add: wf_db_def)
  have "\<not> occupies (a\<lparr>status := DELETED\<rparr>) doc dt tm" for a
    using py_active_deleted by (auto simp: occupies_def)
  then show ?thesis
    unfolding is_appointment_available_def delete_appointment_def
      appointments_update[OF dist] slot_free_iff
    by auto
qed

text \<open>
  Claim C1, as amended. On a well-formed store, a successful \<open>create_appointment\<close> for a
  (doctor, date, time) triple returns the next id and makes \<open>is_appointment_available\<close>
  false for that triple. It stays false after every sequence of handler calls that neither
  soft-deletes that appointment nor edits its doctor, date or time. A soft delete of the
  appointment then succeeds, and afterwards \<open>is_appointment_available\<close> is true exactly
  when no other active appointment occupies the triple.
\<close>

theorem slot_unavailable_while_untouched:
  assumes "wf_db d"
      and "list_all (keeps_slot (next_id d)) cs"
  shows "(let d1 = snd (create_appointment ok now uid pname doc proc dt tm d);
              d2 = run cs d1
          in fst (create_appointment True now uid pname doc proc dt tm d) = Inr (next_id d)
           \<and> \<not> is_appointment_available d1 doc dt tm
           \<and> \<not> is_appointment_available d2 doc dt tm
           \<and> fst (delete_appointment True (next_id d) d2) = Inr True
           \<and> is_appointment_available (snd (delete_appointment ok' (next_id d) d2)) doc dt tm
               = (\<forall>a\<in>set (appointments d2). apt_id a \<noteq> next_id d \<longrightarrow> \<not> occupies a doc dt tm))"
proof -
  define d1 where "d1 = snd (create_appointment ok now uid pname doc proc dt tm d)"
  define d2 where "d2 = run cs d1"
  define new where "new = \<lparr>apt_id = next_id d, user_id = uid, patient_name = pname, doctor = doc,
        procedure = proc, date = dt, time = tm, created_at = now, status = ACTIVE\<rparr>"
  have wf1: "wf_db d1" unfolding d1_def using assms(1) by (rule wf_db_create)
  have "new \<in> set (appointments d1)" "apt_id new = next_id d" "occupies new doc dt tm"
    by (simp_all add: d1_def appointments_create new_def occupies_def)
  then have ex1: "\<exists>a\<in>set (appointments d1). apt_id a = next_id d \<and> occupies a doc dt tm"
    by blast
  from slot_inv_run[OF wf1 ex1 assms(2)]
  have wf2: "wf_db d2"
    and ex2: "\<exists>b\<in>set (appointments d2). apt_id b = next_id d \<and> occupies b doc dt tm"
    by (simp_all add: d2_def)
  have r: "fst (create_appointment True now uid pname doc proc dt tm d) = Inr (next_id d)"
    by (simp add: create_appointment_def Let_def save_data_def)
  have na1: "\<not> is_appointment_available d1 doc dt tm"
    using ex1 by (auto simp: is_appointment_available_def slot_free_iff)
  have na2: "\<not> is_appointment_available d2 doc dt tm"
    using ex2 by (auto simp: is_appointment_available_def slot_free_iff)
  from ex2 have "next_id d \<in> apt_id ` set (appointments d2)"
    by (metis imageI)
  then have "update_first (next_id d) [Set_status DELETED] (appointments d2) \<noteq> None"
    by (simp add: update_first_None_iff)
  then have del: "fst (delete_appointment True (next_id d) d2) = Inr True"
    by (auto simp: delete_appointment_def update_appointment_def Let_def save_data_def)
  note av = available_after_delete[OF wf2, of ok' "next_id d" doc dt tm]
  show ?thesis
    unfolding Let_def d1_def[symmetric] d2_def[symmetric]
    using r na1 na2 del av by blast
qed


text \<open>
  The claim as first stated fails: after the booking of \<open>example_booking\<close> the slot is
  taken; the administrator's edit of the appointment's date
  (\<open>update_appointment(1, date=...)\<close>) leaves the appointment active, not soft-deleted,
  and \<open>is_appointment_available\<close> is true again for the booked triple.
\<close>

theorem slot_freed_by_edit_counterexample:
  "\<not> is_appointment_available example_booking (hd DOCTORS) (py ''05.11.2026'') (py ''09:00'')
   \<and> map_option status
        (get_appointment
           (snd (update_appointment True 1 [Set_date (py ''06.11.2026'')] example_booking)) 1)
       = Some ACTIVE
   \<and> is_appointment_available
        (snd (update_appointment True 1 [Set_date (py ''06.11.2026'')] example_booking))
        (hd DOCTORS) (py ''05.11.2026'') (py ''09:00'')"
  by (simp add: example_defs)

theorem slot_unavailable_while_untouched_witness:
  "wf_db initial_data
   \<and> list_all (keeps_slot (next_id initial_data)) example_calls
   \<and> \<not> is_appointment_available (run example_calls example_booking)
         (hd DOCTORS) (py ''05.11.2026'') (py ''09:00'')
   \<and> is_appointment_available
         (snd (delete_appointment True 1 (run example_calls example_booking)))
         (hd DOCTORS) (py ''05.11.2026'') (py ''09:00'')"
proof -
  have wf: "wf_db initial_data" by (rule wf_db_initial)
  have ks: "list_all (keeps_slot (next_id initial_data)) example_calls"
    by (simp add: example_calls_def initial_data_def)
  have n: "next_id initial_data = 1" by (simp add: initial_data_def)
  have others: "\<forall>a\<in>set (appointments (run example_calls example_booking)).
     apt_id a \<noteq> 1 \<longrightarrow> \<not> occupies a (hd DOCTORS) (py ''05.11.2026'') (py ''09:00'')"
    by (simp add: example_defs)
  from slot_unavailable_while_untouched[OF wf ks, of True example_now 7 "py ''Ivan Petrov''" "hd DOCTORS" "py ''Consultation''"
      "py ''05.11.2026''" "py ''09:00''" True]
  have "\<not> is_appointment_available (run example_calls example_booking)
         (hd DOCTORS) (py ''05.11.2026'') (py ''09:00'')"
    and "is_appointment_available
         (snd (delete_appointment True 1 (run example_calls example_booking)))
         (hd DOCTORS) (py ''05.11.2026'') (py ''09:00'')"
    using others unfolding Let_def n example_booking_def[symmetric] by blast+
  with wf ks show ?thesis by blast
qed


subsection \<open>Registration\<close>

lemma map_of_None_filter:
  "map_of xs k = None \<Longrightarrow> filter (\<lambda>e. fst e = k) xs = []"
  by (induction xs) (auto split: if_splits)

text \<open>
  Claim C4. \<open>add_user\<close> is idempotent: when the id is already registered the call
  returns without raising and leaves the whole store unchanged, whatever username and first
  name it is given; so a second call after any first call is a no-op, and the number of
  entries for the id after a call is one for a new id and unchanged otherwise.
\<close>

theorem add_user_idempotent:
  "(map_of (users d) uid \<noteq> None \<longrightarrow> add_user ok now uid uname fname d = (Inr (), d))
   \<and> add_user ok2 now2 uid uname2 fname2 (snd (add_user ok1 now1 uid uname1 fname1 d))
       = (Inr (), snd (add_user ok1 now1 uid uname1 fname1 d))
   \<and> length (filter (\<lambda>e. fst e = uid) (users (snd (add_user ok1 now1 uid uname1 fname1 d))))
       = (if map_of (users d) uid = None then 1
          else length (filter (\<lambda>e. fst e = uid) (users d)))"
proof (intro conjI)
  show "map_of (users d) uid \<noteq> None \<longrightarrow> add_user ok now uid uname fname d = (Inr (), d)"
    by (simp add: add_user_def)
next
  show "add_user ok2 now2 uid uname2 fname2 (snd (add_user ok1 now1 uid uname1 fname1 d))
       = (Inr (), snd (add_user ok1 now1 uid uname1 fname1 d))"
  proof (cases "map_of (users d) uid = None")
    case True
    then show ?thesis by (simp add: add_user_def Let_def map_of_append_new)
  next
    case False
    then obtain u where "map_of (users d) uid = Some u" by auto
    then show ?thesis by (simp add: add_user_def)
  qed
next
  show "length (filter (\<lambda>e. fst e = uid) (users (snd (add_user ok1 now1 uid uname1 fname1 d))))
       = (if map_of (users d) uid = None then 1
          else length (filter (\<lambda>e. fst e = uid) (users d)))"
    by (simp add: add_user_def Let_def map_of_None_filter)
qed

theorem add_user_idempotent_witness:
  "map_of (users example_users) 7
     = Some \<lparr>username = Some (py ''ivan''), first_name = py ''Ivan'', registered_at = example_now\<rparr>
   \<and> add_user True (py ''2027-01-01T00:00:00'') 7 None (py ''Vanya'') example_users
       = (Inr (), example_users)"
proof -
  have h: "map_of (users example_users) 7 \<noteq> None"
    by (simp add: example_users_def add_user_def initial_data_def Let_def)
  from add_user_idempotent[of example_users 7 True "py ''2027-01-01T00:00:00''" None "py ''Vanya''"] h
  have "add_user True (py ''2027-01-01T00:00:00'') 7 None (py ''Vanya'') example_users
       = (Inr (), example_users)" by blast
  then show ?thesis
    by (simp add: example_users_def add_user_def initial_data_def Let_def)
qed

subsection \<open>Failed writes\<close>

text \<open>
  Claim C8, as amended. When the durable write fails, every mutating operation that
  reaches \<open>save_data\<close> raises \<open>PersistenceError\<close> to its caller, and the in-memory store is
  left exactly as a successful call leaves it: the mutation is applied before the write and
  is not rolled back. \<open>update_appointment\<close> and \<open>delete_appointment\<close> on an unknown id
  and \<open>add_user\<close> on a registered id do not write, so they do not raise.
\<close>

theorem failed_write_raises_and_keeps_mutation:
  "create_appointment False now uid pname doc proc dt tm d
     = (Inl PersistenceError, snd (create_appointment True now uid pname doc proc dt tm d))
   \<and> snd (create_appointment True now uid pname doc proc dt tm d) \<noteq> d
   \<and> update_appointment False i kw d
     = (if get_appointment d i = None then (Inr False, d)
        else (Inl PersistenceError, snd (update_appointment True i kw d)))
   \<and> delete_appointment False i d
     = (if get_appointment d i = None then (Inr False, d)
        else (Inl PersistenceError, snd (delete_appointment True i d)))
   \<and> add_user False now uid uname fname d
     = (if map_of (users d) uid = None
        then (Inl PersistenceError, snd (add_user True now uid uname fname d))
        else (Inr (), d))
   \<and> (if map_of (users d) uid = None
      then snd (add_user True now uid uname fname d) \<noteq> d
      else snd (add_user True now uid uname fname d) = d)"
proof -
  have upd: "update_appointment False i kw d
     = (if get_appointment d i = None then (Inr False, d)
        else (Inl PersistenceError, snd (update_appointment True i kw d)))" for kw
  proof (cases "update_first i kw (appointments d)")
    case None
    then have "find_appointment i (appointments d) = None"
      by (simp add: update_first_None_iff find_appointment_None_iff)
    with None show ?thesis by (simp add: update_appointment_def get_appointment_def)
  next
    case (Some as')
    then have "find_appointment i (appointments d) \<noteq> None"
      using update_first_None_iff[of i kw "appointments d"]
      by (simp add: find_appointment_None_iff)
    with Some show ?thesis
      by (simp add: update_appointment_def get_appointment_def Let_def save_data_def)
  qed
  have cr: "snd (create_appointment True now uid pname doc proc dt tm d) \<noteq> d"
  proof
    assume "snd (create_appointment True now uid pname doc proc dt tm d) = d"
    then have "next_id (snd (create_appointment True now uid pname doc proc dt tm d)) = next_id d"
      by simp
    then show False by (simp add: next_id_create)
  qed
  have au: "map_of (users d) uid = None \<Longrightarrow> snd (add_user True now uid uname fname d) \<noteq> d"
  proof
    assume n: "map_of (users d) uid = None"
      and "snd (add_user True now uid uname fname d) = d"
    then have "length (users (snd (add_user True now uid uname fname d))) = length (users d)"
      by simp
    with n show False by (simp add: add_user_def Let_def)
  qed
  show ?thesis
    using upd[of kw] upd[of "[Set_status DELETED]"] cr au
    by (simp add: delete_appointment_def create_appointment_def add_user_def Let_def save_data_def)
qed

text \<open>
  The claim as first stated fails: a \<open>create_appointment\<close> whose write fails raises, and
  yet leaves the new appointment in the in-memory store, where it blocks the slot.
\<close>

theorem failed_write_keeps_mutation_counterexample:
  "fst (create_appointment False example_now 7 (py ''Ivan Petrov'') (hd DOCTORS)
          (py ''Consultation'') (py ''05.11.2026'') (py ''09:00'') initial_data)
     = Inl PersistenceError
   \<and> snd (create_appointment False example_now 7 (py ''Ivan Petrov'') (hd DOCTORS)
          (py ''Consultation'') (py ''05.11.2026'') (py ''09:00'') initial_data)
     = example_booking
   \<and> example_booking \<noteq> initial_data
   \<and> \<not> is_appointment_available example_booking (hd DOCTORS) (py ''05.11.2026'') (py ''09:00'')
   \<and> is_appointment_available initial_data (hd DOCTORS) (py ''05.11.2026'') (py ''09:00'')"
  by (simp add: example_defs)

theorem failed_write_raises_and_keeps_mutation_witness:
  "get_appointment example_booking 1 \<noteq> None
   \<and> fst (delete_appointment False 1 example_booking) = Inl PersistenceError
   \<and> map_option status (get_appointment (snd (delete_appointment False 1 example_booking)) 1)
       = Some DELETED"
proof -
  have h: "get_appointment example_booking 1 \<noteq> None"
    by (simp add: example_defs)
  from failed_write_raises_and_keeps_mutation[where d = example_booking and i = 1] h
  have "delete_appointment False 1 example_booking
          = (Inl PersistenceError, snd (delete_appointment True 1 example_booking))"
    by simp
  then show ?thesis using h by (simp add: example_defs)
qed

subsection \<open>Soft delete\<close>

lemma get_appointments_subset:
  "c \<in> set (get_appointments d u) \<Longrightarrow> c \<in> set (appointments d) \<and> status c = ACTIVE"
  by (auto simp: get_appointments_def split: option.splits if_splits)

lemma deleted_inv_exec:
  assumes wf: "wf_db d"
      and b: "b \<in> set (appointments d)" "apt_id b = i" "status b = DELETED"
      and k: "handler_call c"
  shows "\<exists>b'\<in>set (appointments (exec c d)). apt_id b' = i \<and> status b' = DELETED"
proof -
  obtain ok now k' where c: "c = (ok, now, k')" by (cases c)
  from wf have dist: "distinct (map apt_id (appointments d))" by (simp add: wf_db_def)
  show ?thesis
  proof (cases k')
    case (Add_user uid un fn)
    with b c show ?thesis by (auto simp: appointments_add_user)
  next
    case (Create_appointment uid pn doc' pr dt' tm')
    with b c show ?thesis by (auto simp: appointments_create)
  next
    case (Update_appointment j kw)
    with k c have ek: "edit_kwargs kw" by simp
    let ?f = "\<lambda>a. if apt_id a = j then dict_update a kw else a"
    from b(1) have "?f b \<in> set (appointments (exec c d))"
      using c Update_appointment by (simp add: appointments_update[OF dist])
    moreover have "apt_id (?f b) = i \<and> status (?f b) = DELETED"
      using b(2,3) ek by (simp add: edit_kwargs_keeps)
    ultimately show ?thesis by blast
  next
    case (Delete_appointment j)
    let ?f = "\<lambda>a. if apt_id a = j then dict_update a [Set_status DELETED] else a"
    from b(1) have "?f b \<in> set (appointments (exec c d))"
      using c Delete_appointment
      by (simp add: delete_appointment_def appointments_update[OF dist])
    moreover have "apt_id (?f b) = i \<and> status (?f b) = DELETED"
      using b(2,3) by simp
    ultimately show ?thesis by blast
  qed
qed

lemma deleted_inv_run:
  "wf_db d \<Longrightarrow> \<exists>b\<in>set (appointments d). apt_id b = i \<and> status b = DELETED \<Longrightarrow>
   list_all handler_call cs \<Longrightarrow>
   wf_db (run cs d) \<and> (\<exists>b\<in>set (appointments (run cs d)). apt_id b = i \<and> status b = DELETED)"
proof (induction cs arbitrary: d)
  case Nil
  then show ?case by (simp add: run_def)
next
  case (Cons c cs)
  from Cons.prems have k: "handler_call c" and ks: "list_all handler_call cs" by simp_all
  from Cons.prems(1) k have wf': "wf_db (exec c d)" by (simp add: wf_db_exec)
  from Cons.prems(2) obtain b where "b \<in> set (appointments d)" "apt_id b = i" "status b = DELETED"
    by blast
  from deleted_inv_exec[OF Cons.prems(1) this k]
  have "\<exists>b'\<in>set (appointments (exec c d)). apt_id b' = i \<and> status b' = DELETED" .
  from Cons.IH[OF wf' this ks] show ?case by (simp add: run_def)
qed

lemma deleted_hidden:
  assumes wf: "wf_db d"
      and b: "b \<in> set (appointments d)" "apt_id b = i" "status b = DELETED"
  shows "i \<notin> apt_id ` set (get_appointments d u)" and "get_appointment d i = Some b"
proof -
  from wf have dist: "distinct (map apt_id (appointments d))" by (simp add: wf_db_def)
  show g: "get_appointment d i = Some b"
    using find_appointment_distinct[OF dist b(1)] b(2) by (simp add: get_appointment_def)
  show "i \<notin> apt_id ` set (get_appointments d u)"
  proof
    assume "i \<in> apt_id ` set (get_appointments d u)"
    then obtain c where c: "c \<in> set (get_appointments d u)" "apt_id c = i" by auto
    from get_appointments_subset[OF c(1)] have cs: "c \<in> set (appointments d)" "status c = ACTIVE"
      by simp_all
    from find_appointment_distinct[OF dist cs(1)] c(2) g have "c = b"
      by (simp add: get_appointment_def)
    with cs(2) b(3) py_active_deleted show False by simp
  qed
qed

text \<open>
  Claim C5. On a well-formed store, once an existing appointment has been soft-deleted,
  \<open>get_appointment\<close> returns its full record with \<open>status = deleted\<close>; after every later
  sequence of handler calls the id still resolves to a record with \<open>status = deleted\<close>
  and no record with that id is in the output of \<open>get_appointments\<close>, with or without an
  owner. \<open>get_appointments\<close> returns exactly the active records of the stored list, those
  of the owner when a non-zero owner is given, in the order of the list, and a new
  appointment comes last.
\<close>

theorem soft_deleted_hidden_but_retrievable:
  assumes "wf_db d" and "get_appointment d i = Some a" and "list_all handler_call cs"
  shows "get_appointment (snd (delete_appointment ok i d)) i = Some (a\<lparr>status := DELETED\<rparr>)
       \<and> (\<forall>u. i \<notin> apt_id ` set (get_appointments (run cs (snd (delete_appointment ok i d))) u))
       \<and> (\<exists>b. get_appointment (run cs (snd (delete_appointment ok i d))) i = Some b
              \<and> status b = DELETED)
       \<and> (\<forall>u. subseq (get_appointments d u) (appointments d))
       \<and> (\<forall>u. list_all (\<lambda>b. status b = ACTIVE) (get_appointments d u))
       \<and> get_appointments d None = filter (\<lambda>b. status b = ACTIVE) (appointments d)
       \<and> (\<forall>n. n \<noteq> 0 \<longrightarrow>
             get_appointments d (Some n)
               = filter (\<lambda>b. user_id b = n \<and> status b = ACTIVE) (appointments d))
       \<and> get_appointments (snd (create_appointment ok' now uid pname doc proc dt tm d)) None
           = get_appointments d None
             @ [\<lparr>apt_id = next_id d, user_id = uid, patient_name = pname, doctor = doc,
                 procedure = proc, date = dt, time = tm, created_at = now, status = ACTIVE\<rparr>]"
proof -
  define d1 where "d1 = snd (delete_appointment ok i d)"
  from assms(1) have dist: "distinct (map apt_id (appointments d))" by (simp add: wf_db_def)
  from assms(2) have a: "a \<in> set (appointments d)" "apt_id a = i"
    using find_appointment_Some[of i "appointments d" a] by (simp_all add: get_appointment_def)
  have wf1: "wf_db d1"
    unfolding d1_def delete_appointment_def by (rule wf_db_update[OF assms(1)]) simp
  have ap1: "appointments d1
      = map (\<lambda>x. if apt_id x = i then dict_update x [Set_status DELETED] else x) (appointments d)"
    unfolding d1_def delete_appointment_def by (rule appointments_update[OF dist])
  from a have b1: "a\<lparr>status := DELETED\<rparr> \<in> set (appointments d1)"
    unfolding ap1 by (auto simp: image_iff intro!: bexI[of _ a])
  have b2: "apt_id (a\<lparr>status := DELETED\<rparr>) = i" "status (a\<lparr>status := DELETED\<rparr>) = DELETED"
    using a(2) by simp_all
  have one: "get_appointment d1 i = Some (a\<lparr>status := DELETED\<rparr>)"
    by (rule deleted_hidden(2)[OF wf1 b1 b2])
  from b1 b2 have "\<exists>b\<in>set (appointments d1). apt_id b = i \<and> status b = DELETED" by blast
  from deleted_inv_run[OF wf1 this assms(3)]
  have wf2: "wf_db (run cs d1)"
    and "\<exists>b\<in>set (appointments (run cs d1)). apt_id b = i \<and> status b = DELETED"
    by simp_all
  then obtain b where b: "b \<in> set (appointments (run cs d1))" "apt_id b = i" "status b = DELETED"
    by blast
  have two: "\<forall>u. i \<notin> apt_id ` set (get_appointments (run cs d1) u)"
    using deleted_hidden(1)[OF wf2 b] by blast
  have three: "\<exists>b. get_appointment (run cs d1) i = Some b \<and> status b = DELETED"
    using deleted_hidden(2)[OF wf2 b] b(3) by blast
  have four: "\<forall>u. subseq (get_appointments d u) (appointments d)"
    by (simp add: get_appointments_def split: option.splits)
  have five: "\<forall>u. list_all (\<lambda>b. status b = ACTIVE) (get_appointments d u)"
    by (simp add: get_appointments_def list_all_iff split: option.splits)
  have six: "get_appointments (snd (create_appointment ok' now uid pname doc proc dt tm d)) None
           = get_appointments d None
             @ [\<lparr>apt_id = next_id d, user_id = uid, patient_name = pname, doctor = doc,
                 procedure = proc, date = dt, time = tm, created_at = now, status = ACTIVE\<rparr>]"
    by (simp add: get_appointments_def appointments_create)
  have seven: "get_appointments d None = filter (\<lambda>b. status b = ACTIVE) (appointments d)"
    by (simp add: get_appointments_def)
  have eight: "\<forall>n. n \<noteq> 0 \<longrightarrow>
             get_appointments d (Some n)
               = filter (\<lambda>b. user_id b = n \<and> status b = ACTIVE) (appointments d)"
    by (simp add: get_appointments_def truthy_def)
  from one two three four five seven eight six show ?thesis unfolding d1_def by blast
qed

theorem soft_deleted_hidden_but_retrievable_witness:
  "wf_db example_booking
   \<and> map_option status (get_appointment example_booking 1) = Some ACTIVE
   \<and> list_all handler_call example_calls
   \<and> map_option status
       (get_appointment (run example_calls (snd (delete_appointment True 1 example_booking))) 1)
       = Some DELETED
   \<and> get_appointments (run example_calls (snd (delete_appointment True 1 example_booking))) None
       = []
   \<and> map apt_id (get_appointments (run example_calls example_booking) None) = [1]
   \<and> map apt_id (get_appointments (run example_calls example_booking) (Some 7)) = [1]
   \<and> get_appointments (run example_calls example_booking) (Some 8) = []
   \<and> map apt_id
        (get_appointments
           (snd (create_appointment True example_now 8 (py ''Anna Sidorova'') (DOCTORS ! 1)
              (py ''Consultation'') (py ''05.11.2026'') (py ''10:00'') example_booking)) None)
       = [1, 2]"
proof -
  have wf: "wf_db example_booking" by (simp add: example_defs)
  obtain a where a: "get_appointment example_booking 1 = Some a" "status a = ACTIVE"
    by (simp add: example_defs)
  have hc: "list_all handler_call example_calls" by (simp add: example_calls_def)
  from soft_deleted_hidden_but_retrievable[OF wf a(1) hc, of True]
  obtain b where "get_appointment (run example_calls (snd (delete_appointment True 1 example_booking))) 1
      = Some b" "status b = DELETED"
    by blast
  then have "map_option status
       (get_appointment (run example_calls (snd (delete_appointment True 1 example_booking))) 1)
       = Some DELETED" by simp
  moreover have "get_appointments (run example_calls (snd (delete_appointment True 1 example_booking))) None
       = []"
    by (simp add: example_defs get_appointments_def)
  moreover have "map apt_id (get_appointments (run example_calls example_booking) None) = [1]"
    by (simp add: example_defs get_appointments_def)
  moreover have "map apt_id (get_appointments (run example_calls example_booking) (Some 7)) = [1]"
    by (simp add: example_defs get_appointments_def truthy_def)
  moreover have "get_appointments (run example_calls example_booking) (Some 8) = []"
    by (simp add: example_defs get_appointments_def truthy_def)
  moreover have "map apt_id
        (get_appointments
           (snd (create_appointment True example_now 8 (py ''Anna Sidorova'') (DOCTORS ! 1)
              (py ''Consultation'') (py ''05.11.2026'') (py ''10:00'') example_booking)) None)
       = [1, 2]"
    by (simp add: example_defs get_appointments_def)
  ultimately show ?thesis using wf a hc by simp
qed

section \<open>Facts about the wizards\<close>

subsection \<open>Date choices\<close>

lemma for_each_total:
  "(\<And>i. i \<in> set is \<Longrightarrow> f i = Inr (g i)) \<Longrightarrow> for_each f is = Inr (map g is)"
  by (induction "is") simp_all

lemma plus_days_ok: "today + i \<le> MAXORDINAL \<Longrightarrow> plus_days today i = Inr (today + i)"
  by (simp add: plus_days_def)

lemma get_dates_keyboard_ok:
  assumes "today + 13 \<le> MAXORDINAL"
  shows "get_dates_keyboard today =
     Inr (map (\<lambda>k. [\<lparr>btn_text = date_label (today + k),
                      callback_data = py ''select_date:'' @ strftime_date (today + k)\<rparr>]) [0..<7]
          @ [[\<lparr>btn_text = BACK, callback_data = py ''select_doctor''\<rparr>]])"
proof -
  have "for_each
     (\<lambda>i. case plus_days today i of
             Inl e \<Rightarrow> Inl e
           | Inr dt \<Rightarrow>
               Inr [\<lparr>btn_text = strftime_date dt @ py '' ('' @ day_name3 dt @ py '')'',
                     callback_data = py ''select_date:'' @ strftime_date dt\<rparr>])
     [0..<7]
    = Inr (map (\<lambda>k. [\<lparr>btn_text = date_label (today + k),
                      callback_data = py ''select_date:'' @ strftime_date (today + k)\<rparr>]) [0..<7])"
    using assms by (intro for_each_total) (simp add: plus_days_ok date_label_def)
  then show ?thesis by (simp add: get_dates_keyboard_def)
qed

lemma edit_date_buttons_ok:
  assumes "today + 13 \<le> MAXORDINAL"
  shows "edit_date_buttons today i =
     Inr (map (\<lambda>k. [\<lparr>btn_text = date_label (today + k),
                      callback_data = py ''edit_select_date:'' @ strftime_date (today + k)\<rparr>])
            [0..<14]
          @ [[\<lparr>btn_text = BACK, callback_data = py ''view_appointment:'' @ str_int i\<rparr>]])"
proof -
  have "for_each
     (\<lambda>i. case plus_days today i of
             Inl e \<Rightarrow> Inl e
           | Inr dt \<Rightarrow>
               Inr [\<lparr>btn_text = strftime_date dt @ py '' ('' @ day_name3 dt @ py '')'',
                     callback_data = py ''edit_select_date:'' @ strftime_date dt\<rparr>])
     [0..<14]
    = Inr (map (\<lambda>k. [\<lparr>btn_text = date_label (today + k),
                      callback_data = py ''edit_select_date:'' @ strftime_date (today + k)\<rparr>])
            [0..<14])"
    using assms by (intro for_each_total) (simp add: plus_days_ok date_label_def)
  then show ?thesis by (simp add: edit_date_buttons_def)
qed

lemma concat_singletons: "concat (map (\<lambda>k. [f k]) ks) = map f ks"
  by (induction ks) simp_all

text \<open>
  Claim C6, as amended. For an administrator and a day at least 13 days before the last
  representable date, the date step of the booking wizard offers the 7 days
  \<open>today + 0..6\<close> and the edit flow for the date offers the 14 days \<open>today + 0..13\<close>,
  each as \<open>dd.mm.yyyy\<close> with the weekday abbreviation. The two derivations agree on the
  first seven days: the booking choices are the first seven of the edit choices, in texts
  and in the dates sent back.
\<close>

theorem edit_date_offers_fourteen_days:
  assumes "today + 13 \<le> MAXORDINAL" and "uid \<in> set admins"
  shows "\<exists>kb kb'. get_dates_keyboard today = Inr kb
       \<and> edit_date_buttons today i = Inr kb'
       \<and> replies (process_callback_select_procedure today proc s d) = [Choose_date kb]
       \<and> replies (process_callback_edit_date admins today uid i s d) = [Choose_new_date kb']
       \<and> date_choices kb = map (\<lambda>k. date_label (today + k)) [0..<7]
       \<and> date_choices kb' = map (\<lambda>k. date_label (today + k)) [0..<14]
       \<and> date_choices kb = take 7 (date_choices kb')
       \<and> date_payloads (py ''select_date:'') kb
           = take 7 (date_payloads (py ''edit_select_date:'') kb')"
proof -
  let ?kb = "map (\<lambda>k. [\<lparr>btn_text = date_label (today + k),
                      callback_data = py ''select_date:'' @ strftime_date (today + k)\<rparr>]) [0..<7]
          @ [[\<lparr>btn_text = BACK, callback_data = py ''select_doctor''\<rparr>]]"
  let ?kb' = "map (\<lambda>k. [\<lparr>btn_text = date_label (today + k),
                      callback_data = py ''edit_select_date:'' @ strftime_date (today + k)\<rparr>])
            [0..<14]
          @ [[\<lparr>btn_text = BACK, callback_data = py ''view_appointment:'' @ str_int i\<rparr>]]"
  have k: "get_dates_keyboard today = Inr ?kb" by (rule get_dates_keyboard_ok[OF assms(1)])
  have k': "edit_date_buttons today i = Inr ?kb'" by (rule edit_date_buttons_ok[OF assms(1)])
  have r: "replies (process_callback_select_procedure today proc s d) = [Choose_date ?kb]"
    by (simp add: process_callback_select_procedure_def k finish_def Let_def)
  have r': "replies (process_callback_edit_date admins today uid i s d) = [Choose_new_date ?kb']"
    using assms(2) by (simp add: process_callback_edit_date_def k' finish_def Let_def)
  have c: "date_choices ?kb = map (\<lambda>k. date_label (today + k)) [0..<7]"
    unfolding date_choices_def butlast_snoc concat_singletons by (simp add: comp_def)
  have c': "date_choices ?kb' = map (\<lambda>k. date_label (today + k)) [0..<14]"
    unfolding date_choices_def butlast_snoc concat_singletons by (simp add: comp_def)
  have t: "date_choices ?kb = take 7 (date_choices ?kb')"
    unfolding c c' by (simp add: take_map)
  have p: "date_payloads (py ''select_date:'') ?kb = map (\<lambda>k. strftime_date (today + k)) [0..<7]"
    unfolding date_payloads_def butlast_snoc concat_singletons by (simp add: comp_def py_def)
  have p': "date_payloads (py ''edit_select_date:'') ?kb'
       = map (\<lambda>k. strftime_date (today + k)) [0..<14]"
    unfolding date_payloads_def butlast_snoc concat_singletons by (simp add: comp_def py_def)
  have tp: "date_payloads (py ''select_date:'') ?kb
           = take 7 (date_payloads (py ''edit_select_date:'') ?kb')"
    unfolding p p' by (simp add: take_map)
  from k k' r r' c c' t tp show ?thesis by blast
qed

lemmas date_defs = date_label_def strftime_date_def ymd_def year_and_day_def days_in_month_def
  is_leap_def two_digits_def digit_def day_name3_def weekday_def DAY_NAMES_def py_def Let_def

text \<open>
  The claim as first stated fails: on 4 November 2026 the booking wizard offers seven dates
  and the edit flow fourteen.
\<close>

theorem edit_date_choices_differ_counterexample:
  "map_sum id date_choices (get_dates_keyboard 739924)
     = Inr [py ''04.11.2026 (Wed)'', py ''05.11.2026 (Thu)'', py ''06.11.2026 (Fri)'',
            py ''07.11.2026 (Sat)'', py ''08.11.2026 (Sun)'', py ''09.11.2026 (Mon)'',
            py ''10.11.2026 (Tue)'']
   \<and> map_sum id date_choices (edit_date_buttons 739924 1)
     = Inr [py ''04.11.2026 (Wed)'', py ''05.11.2026 (Thu)'', py ''06.11.2026 (Fri)'',
            py ''07.11.2026 (Sat)'', py ''08.11.2026 (Sun)'', py ''09.11.2026 (Mon)'',
            py ''10.11.2026 (Tue)'', py ''11.11.2026 (Wed)'', py ''12.11.2026 (Thu)'',
            py ''13.11.2026 (Fri)'', py ''14.11.2026 (Sat)'', py ''15.11.2026 (Sun)'',
            py ''16.11.2026 (Mon)'', py ''17.11.2026 (Tue)'']
   \<and> map_sum id date_choices (get_dates_keyboard 739924)
       \<noteq> map_sum id date_choices (edit_date_buttons 739924 1)"
proof -
  have b: "(739924::nat) + 13 \<le> MAXORDINAL" by (simp add: MAXORDINAL_def)
  have u: "[0..<7] = [0, 1, 2, 3, 4, 5, 6]"
    "[0..<14] = [0, 1, 2, 3, 4, 5, 6, 7, 8, 9, 10, 11, 12, 13]"
    by (simp_all add: upt_rec)
  have l: "map (\<lambda>k. date_label (739924 + k)) [0, 1, 2, 3, 4, 5, 6, 7, 8, 9, 10, 11, 12, 13]
     = [py ''04.11.2026 (Wed)'', py ''05.11.2026 (Thu)'', py ''06.11.2026 (Fri)'',
            py ''07.11.2026 (Sat)'', py ''08.11.2026 (Sun)'', py ''09.11.2026 (Mon)'',
            py ''10.11.2026 (Tue)'', py ''11.11.2026 (Wed)'', py ''12.11.2026 (Thu)'',
            py ''13.11.2026 (Fri)'', py ''14.11.2026 (Sat)'', py ''15.11.2026 (Sun)'',
            py ''16.11.2026 (Mon)'', py ''17.11.2026 (Tue)'']"
    by (simp add: date_defs)
  have a7: "map_sum id date_choices (get_dates_keyboard 739924)
     = Inr (map (\<lambda>k. date_label (739924 + k)) [0, 1, 2, 3, 4, 5, 6])"
    unfolding get_dates_keyboard_ok[OF b] date_choices_def butlast_snoc concat_singletons u
    by (simp add: comp_def)
  have a14: "map_sum id date_choices (edit_date_buttons 739924 1)
     = Inr (map (\<lambda>k. date_label (739924 + k)) [0, 1, 2, 3, 4, 5, 6, 7, 8, 9, 10, 11, 12, 13])"
    unfolding edit_date_buttons_ok[OF b] date_choices_def butlast_snoc concat_singletons u
    by (simp add: comp_def)
  from l have l7: "map (\<lambda>k. date_label (739924 + k)) [0, 1, 2, 3, 4, 5, 6]
     = [py ''04.11.2026 (Wed)'', py ''05.11.2026 (Thu)'', py ''06.11.2026 (Fri)'',
            py ''07.11.2026 (Sat)'', py ''08.11.2026 (Sun)'', py ''09.11.2026 (Mon)'',
            py ''10.11.2026 (Tue)'']"
    by simp
  show ?thesis unfolding a7 a14 l l7 by simp
qed

theorem edit_date_offers_fourteen_days_witness:
  "(739924::nat) + 13 \<le> MAXORDINAL \<and> (1::int) \<in> set [1]
   \<and> (\<exists>kb kb'. get_dates_keyboard 739924 = Inr kb
         \<and> edit_date_buttons 739924 5 = Inr kb'
         \<and> replies (process_callback_edit_date [1] 739924 1 5 no_session initial_data)
             = [Choose_new_date kb']
         \<and> date_choices kb = take 7 (date_choices kb')
         \<and> length (date_choices kb') = 14)"
proof -
  have b: "(739924::nat) + 13 \<le> MAXORDINAL" by (simp add: MAXORDINAL_def)
  have a: "(1::int) \<in> set [1]" by simp
  from edit_date_offers_fourteen_days[OF b a, of 5 "[]" no_session initial_data]
  obtain kb kb' where "get_dates_keyboard 739924 = Inr kb"
    "edit_date_buttons 739924 5 = Inr kb'"
    "replies (process_callback_edit_date [1] 739924 1 5 no_session initial_data)
       = [Choose_new_date kb']"
    "date_choices kb' = map (\<lambda>k. date_label (739924 + k)) [0..<14]"
    "date_choices kb = take 7 (date_choices kb')"
    by blast
  then have "get_dates_keyboard 739924 = Inr kb
         \<and> edit_date_buttons 739924 5 = Inr kb'
         \<and> replies (process_callback_edit_date [1] 739924 1 5 no_session initial_data)
             = [Choose_new_date kb']
         \<and> date_choices kb = take 7 (date_choices kb')
         \<and> length (date_choices kb') = 14"
    by simp
  with a b show ?thesis by blast
qed

subsection \<open>The name step\<close>

lemma dropWhile_hd: "s \<noteq> [] \<Longrightarrow> \<not> P (hd s) \<Longrightarrow> dropWhile P s = s"
  by (cases s) simp_all

lemma strip_plain:
  assumes "s \<noteq> []" and "\<not> isspace (hd s)" and "\<not> isspace (last s)"
  shows "strip s = s"
proof -
  have "dropWhile isspace s = s" using assms(1,2) by (rule dropWhile_hd)
  moreover have "dropWhile isspace (rev s) = rev s"
    using assms(1,3) by (intro dropWhile_hd) (simp_all add: hd_rev)
  ultimately show ?thesis by (simp add: strip_def)
qed

lemma text_or_caption_text:
  "msg_text m = Some t \<Longrightarrow> t \<noteq> [] \<Longrightarrow> text_or_caption m = Some t"
  by (simp add: text_or_caption_def)

lemma command_filter_needs_slash:
  assumes "msg_text m = Some t" and "t \<noteq> []" and "\<not> isspace (hd t)" and "hd t \<noteq> 47"
  shows "\<not> command_filter me name m"
proof -
  obtain c cs where t: "t = c # cs" using assms(2) by (cases t) auto
  with assms(3,4) have "first_token t = c # takeWhile (\<lambda>c. \<not> isspace c) cs" and "c \<noteq> 47"
    by (simp_all add: first_token_def)
  then show ?thesis
    by (simp add: command_filter_def text_or_caption_text[OF assms(1,2)] Let_def)
qed

lemma not_bot_command:
  "msg_text m = Some t \<Longrightarrow> t \<noteq> [] \<Longrightarrow> \<not> isspace (hd t) \<Longrightarrow> hd t \<noteq> 47 \<Longrightarrow>
   \<not> bot_command me m"
  by (simp add: bot_command_def command_filter_needs_slash)

lemma command_handlers_keep_session:
  "sess (cmd_start ok now admins u s d) = s" "sess (cmd_help s d) = s"
  "sess (cmd_menu admins u s d) = s" "sess (cmd_stop s d) = s"
  by (simp_all add: cmd_start_def cmd_help_def cmd_menu_def cmd_stop_def finish_def raises_def
      split: prod.splits sum.splits)

text \<open>
  Claim C3, as amended. At the name step, for a message with a text that is not one of the
  commands \<open>/start\<close>, \<open>/help\<close>, \<open>/menu\<close>, \<open>/stop\<close>: a stripped length of 1 or 51
  is rejected, the handler answers with the re-prompt and the session is unchanged; a
  stripped length of 2 or 50 is accepted, the stripped text is stored as
  \<open>patient_name\<close> and the state becomes \<open>waiting_for_doctor\<close>; in general the text is
  accepted exactly when its stripped length is between 2 and 50. A command text is taken by
  its command handler first and leaves the session as it is, and so does every text of
  stripped length 1 or 51, command or not.
\<close>

theorem name_length_bounds:
  assumes "state s = Some waiting_for_patient_name" and "msg_text m = Some t"
  shows "(\<not> bot_command me m \<longrightarrow>
            on_message ok now admins me u m s d =
              Some (if 2 \<le> length (strip t) \<and> length (strip t) \<le> 50
                    then finish (s\<lparr>data_patient_name := Some (strip t),
                                   state := Some waiting_for_doctor\<rparr>) d
                           [Choose_doctor get_doctors_keyboard]
                    else finish s d [Name_rejected]))
       \<and> (\<not> bot_command me m \<and> (length (strip t) = 1 \<or> length (strip t) = 51) \<longrightarrow>
            on_message ok now admins me u m s d = Some (finish s d [Name_rejected]))
       \<and> (\<not> bot_command me m \<and> (length (strip t) = 2 \<or> length (strip t) = 50) \<longrightarrow>
            on_message ok now admins me u m s d =
              Some (finish (s\<lparr>data_patient_name := Some (strip t),
                              state := Some waiting_for_doctor\<rparr>) d
                      [Choose_doctor get_doctors_keyboard]))
       \<and> (length (strip t) = 1 \<or> length (strip t) = 51 \<longrightarrow>
            map_option sess (on_message ok now admins me u m s d) = Some s)
       \<and> (bot_command me m \<longrightarrow>
            map_option sess (on_message ok now admins me u m s d) = Some s)"
proof -
  have plain: "on_message ok now admins me u m s d =
              Some (if 2 \<le> length (strip t) \<and> length (strip t) \<le> 50
                    then finish (s\<lparr>data_patient_name := Some (strip t),
                                   state := Some waiting_for_doctor\<rparr>) d
                           [Choose_doctor get_doctors_keyboard]
                    else finish s d [Name_rejected])"
    if "\<not> bot_command me m"
    using that assms
    by (auto simp: on_message_def bot_command_def process_patient_name_def Let_def)
  have cmd: "map_option sess (on_message ok now admins me u m s d) = Some s"
    if "bot_command me m"
    using that
    by (auto simp: on_message_def bot_command_def command_handlers_keep_session)
  have short: "map_option sess (on_message ok now admins me u m s d) = Some s"
    if "length (strip t) = 1 \<or> length (strip t) = 51"
  proof (cases "bot_command me m")
    case True
    then show ?thesis by (rule cmd)
  next
    case False
    from plain[OF False] that show ?thesis by (auto simp: finish_def)
  qed
  from plain cmd short show ?thesis by auto
qed

text \<open>
  The claim as first stated fails: the text \<open>/stop\<close> followed by a space and 44 letters
  has stripped length 50, yet at the name step it is answered by \<open>cmd_stop\<close>; nothing is
  stored and the state does not advance.
\<close>

theorem name_step_command_counterexample:
  "state example_name_session = Some waiting_for_patient_name
   \<and> length (strip (py ''/stop '' @ replicate 44 1071)) = 50
   \<and> on_message True example_now [] example_me example_sender
        (text_message (py ''/stop '' @ replicate 44 1071)) example_name_session initial_data
       = Some (finish example_name_session initial_data [Goodbye])"
proof -
  have st: "state example_name_session = Some waiting_for_patient_name"
    by (simp add: example_name_session_def)
  have "strip (py ''/stop '' @ replicate 44 1071) = py ''/stop '' @ replicate 44 1071"
    by (rule strip_plain) (simp_all add: py_def isspace_def)
  then have len: "length (strip (py ''/stop '' @ replicate 44 1071)) = 50"
    by (simp add: py_def)
  have tok: "first_token (py ''/stop '' @ replicate 44 1071) = py ''/stop''"
    by (simp add: first_token_def py_def isspace_def)
  have "command_filter example_me (py ''stop'')
          (text_message (py ''/stop '' @ replicate 44 1071))"
    and "\<not> command_filter example_me (py ''start'')
          (text_message (py ''/stop '' @ replicate 44 1071))"
    and "\<not> command_filter example_me (py ''help'')
          (text_message (py ''/stop '' @ replicate 44 1071))"
    and "\<not> command_filter example_me (py ''menu'')
          (text_message (py ''/stop '' @ replicate 44 1071))"
    unfolding command_filter_def text_message_def text_or_caption_def
    by (simp_all add: tok) (simp_all add: py_def)
  then have "on_message True example_now [] example_me example_sender
        (text_message (py ''/stop '' @ replicate 44 1071)) example_name_session initial_data
       = Some (finish example_name_session initial_data [Goodbye])"
    by (simp add: on_message_def cmd_stop_def)
  with st len show ?thesis by blast
qed



theorem name_length_bounds_witness:
  "state example_name_session = Some waiting_for_patient_name
   \<and> \<not> bot_command example_me (text_message (py '' A ''))
   \<and> \<not> bot_command example_me (text_message (py '' Li ''))
   \<and> \<not> bot_command example_me (text_message (replicate 50 1071))
   \<and> \<not> bot_command example_me (text_message (replicate 51 1071))
   \<and> strip (py '' A '') = py ''A''
   \<and> on_message True example_now [] example_me example_sender (text_message (py '' A ''))
        example_name_session initial_data
       = Some (finish example_name_session initial_data [Name_rejected])
   \<and> on_message True example_now [] example_me example_sender
        (text_message (replicate 51 1071)) example_name_session initial_data
       = Some (finish example_name_session initial_data [Name_rejected])
   \<and> map_option (state \<circ> sess)
        (on_message True example_now [] example_me example_sender (text_message (py '' Li ''))
           example_name_session initial_data)
       = Some (Some waiting_for_doctor)
   \<and> map_option (data_patient_name \<circ> sess)
        (on_message True example_now [] example_me example_sender (text_message (py '' Li ''))
           example_name_session initial_data)
       = Some (Some (py ''Li''))
   \<and> map_option (data_patient_name \<circ> sess)
        (on_message True example_now [] example_me example_sender
           (text_message (replicate 50 1071)) example_name_session initial_data)
       = Some (Some (replicate 50 1071))
   \<and> map_option sess
        (on_message True example_now [] example_me example_sender
           (text_message (py ''/stop '' @ replicate 44 1071)) example_name_session initial_data)
       = Some example_name_session"
proof -
  have st: "state example_name_session = Some waiting_for_patient_name"
    by (simp add: example_name_session_def)
  have s1: "strip (py '' A '') = py ''A''" and s2: "strip (py '' Li '') = py ''Li''"
    by (simp_all add: strip_def py_def isspace_def)
  have s50: "strip (replicate 50 1071) = replicate 50 1071"
    and s51: "strip (replicate 51 1071) = replicate 51 1071"
    by (rule strip_plain; simp add: isspace_def)+
  have n1: "\<not> bot_command example_me (text_message (py '' A ''))"
    and n2: "\<not> bot_command example_me (text_message (py '' Li ''))"
    by (simp_all add: bot_command_def command_filter_def text_message_def text_or_caption_def
        first_token_def py_def isspace_def)
  have n50: "\<not> bot_command example_me (text_message (replicate 50 1071))"
    by (rule not_bot_command[where t = "replicate 50 1071"])
      (simp_all add: text_message_def isspace_def)
  have n51: "\<not> bot_command example_me (text_message (replicate 51 1071))"
    by (rule not_bot_command[where t = "replicate 51 1071"])
      (simp_all add: text_message_def isspace_def)
  have m: "msg_text (text_message t) = Some t" for t by (simp add: text_message_def)
  note t = name_length_bounds[OF st m, of example_me _ True example_now "[]" example_sender initial_data]
  have "on_message True example_now [] example_me example_sender (text_message (py '' A ''))
        example_name_session initial_data
       = Some (finish example_name_session initial_data [Name_rejected])"
    using t[of "py '' A ''"] n1 unfolding s1 by (simp add: py_def)
  moreover have "on_message True example_now [] example_me example_sender
        (text_message (replicate 51 1071)) example_name_session initial_data
       = Some (finish example_name_session initial_data [Name_rejected])"
    using t[of "replicate 51 1071"] n51 unfolding s51 by simp
  moreover have "on_message True example_now [] example_me example_sender
        (text_message (py '' Li '')) example_name_session initial_data
       = Some (finish (example_name_session\<lparr>data_patient_name := Some (py ''Li''),
                              state := Some waiting_for_doctor\<rparr>) initial_data
                      [Choose_doctor get_doctors_keyboard])"
    using t[of "py '' Li ''"] n2 unfolding s2 by (simp add: py_def)
  moreover have "on_message True example_now [] example_me example_sender
        (text_message (replicate 50 1071)) example_name_session initial_data
       = Some (finish (example_name_session\<lparr>data_patient_name := Some (replicate 50 1071),
                              state := Some waiting_for_doctor\<rparr>) initial_data
                      [Choose_doctor get_doctors_keyboard])"
    using t[of "replicate 50 1071"] n50 unfolding s50 by simp
  moreover have "bot_command example_me (text_message (py ''/stop '' @ replicate 44 1071))"
    by (simp add: bot_command_def command_filter_def text_message_def text_or_caption_def
        first_token_def py_def isspace_def)
  then have "map_option sess
        (on_message True example_now [] example_me example_sender
           (text_message (py ''/stop '' @ replicate 44 1071)) example_name_session initial_data)
       = Some example_name_session"
    using t[of "py ''/stop '' @ replicate 44 1071"] by blast
  ultimately show ?thesis using st s1 n1 n2 n50 n51 by (simp add: finish_def)
qed

subsection \<open>Cancelling an appointment\<close>

lemma find_then_update_first:
  "find_appointment i as = Some a \<Longrightarrow> apt_id (dict_update a kw) = i \<Longrightarrow>
   \<exists>as'. update_first i kw as = Some as' \<and> find_appointment i as' = Some (dict_update a kw)"
  by (induction as) (auto split: if_splits)

text \<open>
  Claim C10. The cancel handler of the user has no ownership or authorization check: for
  every caller, whoever owns the appointment, an existing appointment id is soft-deleted
  and the handler reports success; the record found by the id afterwards is the old one
  with \<open>status = deleted\<close>. When the write fails the record is soft-deleted in memory
  all the same and the exception leaves the handler.
\<close>

theorem cancel_without_ownership_check:
  assumes "get_appointment d i = Some a"
  shows "process_callback_cancel_appointment True admins uid i s d
           = finish s (snd (delete_appointment True i d)) [Cancel_done (uid \<in> set admins)]
       \<and> process_callback_cancel_appointment False admins uid i s d
           = raises PersistenceError s (snd (delete_appointment True i d))
       \<and> get_appointment (snd (delete_appointment True i d)) i = Some (a\<lparr>status := DELETED\<rparr>)"
proof -
  from assms have ai: "apt_id a = i"
    using find_appointment_Some[of i "appointments d" a] by (simp add: get_appointment_def)
  then have "apt_id (dict_update a [Set_status DELETED]) = i" by simp
  from find_then_update_first[OF assms[unfolded get_appointment_def] this]
  obtain as' where as': "update_first i [Set_status DELETED] (appointments d) = Some as'"
    "find_appointment i as' = Some (a\<lparr>status := DELETED\<rparr>)" by auto
  then show ?thesis
    by (simp add: process_callback_cancel_appointment_def delete_appointment_def
        update_appointment_def save_data_def Let_def get_appointment_def)
qed

theorem cancel_without_ownership_check_witness:
  "map_option user_id (get_appointment example_booking 1) = Some 7
   \<and> replies (process_callback_cancel_appointment True [100] 8 1 no_session example_booking)
       = [Cancel_done False]
   \<and> map_option status
        (get_appointment
          (store (process_callback_cancel_appointment True [100] 8 1 no_session example_booking)) 1)
       = Some DELETED"
proof -
  obtain a where a: "get_appointment example_booking 1 = Some a" "user_id a = 7"
    by (simp add: example_defs)
  from cancel_without_ownership_check[OF a(1), of "[100]" 8 no_session] a show ?thesis
    by (simp add: finish_def)
qed

subsection \<open>Editing without a conflict check\<close>

text \<open>Updating the first record with the id changes the number of occupants of a slot
  by what the updated record contributes.\<close>

lemma update_first_count:
  "find_appointment i as = Some a \<Longrightarrow> update_first i kw as = Some as' \<Longrightarrow>
   length (filter P as') + (if P a then 1 else 0)
     = length (filter P as) + (if P (dict_update a kw) then 1 else 0)"
  by (induction as arbitrary: as') (auto split: if_splits)

lemma edit_slot_count:
  assumes g: "get_appointment d i = Some a"
      and id: "apt_id (dict_update a [kw]) = i"
      and before: "\<not> occupies a doc dt tm"
      and after: "occupies (dict_update a [kw]) doc dt tm"
  shows "fst (update_appointment True i [kw] d) = Inr True"
    and "get_appointment (snd (update_appointment True i [kw] d)) i = Some (dict_update a [kw])"
    and "slot_count (snd (update_appointment True i [kw] d)) doc dt tm = slot_count d doc dt tm + 1"
proof -
  from find_then_update_first[OF g[unfolded get_appointment_def] id]
  obtain as' where as': "update_first i [kw] (appointments d) = Some as'"
    "find_appointment i as' = Some (dict_update a [kw])" by auto
  then show "fst (update_appointment True i [kw] d) = Inr True"
    and "get_appointment (snd (update_appointment True i [kw] d)) i = Some (dict_update a [kw])"
    by (simp_all add: update_appointment_def save_data_def Let_def get_appointment_def)
  from update_first_count[OF g[unfolded get_appointment_def] as'(1),
      of "\<lambda>a. occupies a doc dt tm"] before after
  show "slot_count (snd (update_appointment True i [kw] d)) doc dt tm = slot_count d doc dt tm + 1"
    using as'(1) by (simp add: slot_count_def update_appointment_def save_data_def Let_def)
qed

lemma apply_edit_found:
  assumes "data_edit_appointment_id s = Some i" and "get_appointment d i = Some a"
      and "apt_id (dict_update a [kw]) = i"
  shows "apply_edit True kw done failed s d
           = finish no_session (snd (update_appointment True i [kw] d)) [done]"
proof -
  from find_then_update_first[OF assms(2)[unfolded get_appointment_def] assms(3)]
  obtain as' where "update_first i [kw] (appointments d) = Some as'" by auto
  with assms(1) show ?thesis
    by (simp add: apply_edit_def update_appointment_def save_data_def Let_def)
qed

text \<open>
  Claim C7. When an administrator edits the doctor, the time or the date of an existing
  active appointment through the edit flow, the entry handler only stores the id and sets
  the state, and the selection handler applies \<open>update_appointment\<close> and reports
  success, with no slot-conflict check: the record gets the new value whatever the store
  holds, and when the value is new the number of active appointments on the resulting
  (doctor, date, time) triple grows by one, so a triple that was occupied becomes
  double-booked.
\<close>

theorem edit_without_conflict_check:
  assumes adm: "uid \<in> set admins"
      and g: "get_appointment d i = Some a"
      and act: "status a = ACTIVE"
  shows "(let r = process_callback_edit_doctor admins uid i s d;
              d' = snd (update_appointment True i [Set_doctor doc] d)
          in raised r = None \<and> store r = d \<and> state (sess r) = Some waiting_for_new_doctor
           \<and> on_select_new_doctor True doc (sess r) (store r)
               = Some (finish no_session d' [Doctor_updated])
           \<and> get_appointment d' i = Some (a\<lparr>doctor := doc\<rparr>)
           \<and> (doctor a \<noteq> doc \<longrightarrow>
                slot_count d' doc (date a) (time a) = slot_count d doc (date a) (time a) + 1))
       \<and> (let r = process_callback_edit_time admins uid i s d;
              d' = snd (update_appointment True i [Set_time tm] d)
          in raised r = None \<and> store r = d \<and> state (sess r) = Some waiting_for_new_time
           \<and> on_select_new_time True tm (sess r) (store r)
               = Some (finish no_session d' [Time_updated])
           \<and> get_appointment d' i = Some (a\<lparr>time := tm\<rparr>)
           \<and> (time a \<noteq> tm \<longrightarrow>
                slot_count d' (doctor a) (date a) tm = slot_count d (doctor a) (date a) tm + 1))
       \<and> (today + 13 \<le> MAXORDINAL \<longrightarrow>
          (let r = process_callback_edit_date admins today uid i s d;
              d' = snd (update_appointment True i [Set_date dt] d)
          in raised r = None \<and> store r = d \<and> state (sess r) = Some waiting_for_new_date
           \<and> on_select_new_date True dt (sess r) (store r)
               = Some (finish no_session d' [Date_updated])
           \<and> get_appointment d' i = Some (a\<lparr>date := dt\<rparr>)
           \<and> (date a \<noteq> dt \<longrightarrow>
                slot_count d' (doctor a) dt (time a) = slot_count d (doctor a) dt (time a) + 1)))"
proof -
  from g have ai: "apt_id a = i"
    using find_appointment_Some[of i "appointments d" a] by (simp add: get_appointment_def)
  let ?sd = "s\<lparr>data_edit_appointment_id := Some i, state := Some waiting_for_new_doctor\<rparr>"
  let ?st = "s\<lparr>data_edit_appointment_id := Some i, state := Some waiting_for_new_time\<rparr>"
  let ?sdt = "s\<lparr>data_edit_appointment_id := Some i, state := Some waiting_for_new_date\<rparr>"
  have 1: "apply_edit True (Set_doctor doc) Doctor_updated Doctor_not_updated ?sd d
         = finish no_session (snd (update_appointment True i [Set_doctor doc] d)) [Doctor_updated]"
    by (rule apply_edit_found[OF _ g]) (simp_all add: ai dict_update_def)
  have 2: "apply_edit True (Set_time tm) Time_updated Time_not_updated ?st d
         = finish no_session (snd (update_appointment True i [Set_time tm] d)) [Time_updated]"
    by (rule apply_edit_found[OF _ g]) (simp_all add: ai dict_update_def)
  have 3: "apply_edit True (Set_date dt) Date_updated Date_not_updated ?sdt d
         = finish no_session (snd (update_appointment True i [Set_date dt] d)) [Date_updated]"
    by (rule apply_edit_found[OF _ g]) (simp_all add: ai dict_update_def)
  have g1: "get_appointment (snd (update_appointment True i [Set_doctor doc] d)) i
         = Some (a\<lparr>doctor := doc\<rparr>)"
    and g2: "get_appointment (snd (update_appointment True i [Set_time tm] d)) i
         = Some (a\<lparr>time := tm\<rparr>)"
    and g3: "get_appointment (snd (update_appointment True i [Set_date dt] d)) i
         = Some (a\<lparr>date := dt\<rparr>)"
    using find_then_update_first[OF g[unfolded get_appointment_def], of "[Set_doctor doc]"]
      find_then_update_first[OF g[unfolded get_appointment_def], of "[Set_time tm]"]
      find_then_update_first[OF g[unfolded get_appointment_def], of "[Set_date dt]"] ai
    by (auto simp: update_appointment_def save_data_def Let_def get_appointment_def
        dict_update_def)
  have c1: "doctor a \<noteq> doc \<Longrightarrow>
      slot_count (snd (update_appointment True i [Set_doctor doc] d)) doc (date a) (time a)
        = slot_count d doc (date a) (time a) + 1"
    by (rule edit_slot_count(3)[OF g]) (simp_all add: ai dict_update_def occupies_def act)
  have c2: "time a \<noteq> tm \<Longrightarrow>
      slot_count (snd (update_appointment True i [Set_time tm] d)) (doctor a) (date a) tm
        = slot_count d (doctor a) (date a) tm + 1"
    by (rule edit_slot_count(3)[OF g]) (simp_all add: ai dict_update_def occupies_def act)
  have c3: "date a \<noteq> dt \<Longrightarrow>
      slot_count (snd (update_appointment True i [Set_date dt] d)) (doctor a) dt (time a)
        = slot_count d (doctor a) dt (time a) + 1"
    by (rule edit_slot_count(3)[OF g]) (simp_all add: ai dict_update_def occupies_def act)
  have k: "today + 13 \<le> MAXORDINAL \<Longrightarrow> \<exists>kb. edit_date_buttons today i = Inr kb"
    by (simp add: edit_date_buttons_ok)
  have A: "(let r = process_callback_edit_doctor admins uid i s d;
              d' = snd (update_appointment True i [Set_doctor doc] d)
          in raised r = None \<and> store r = d \<and> state (sess r) = Some waiting_for_new_doctor
           \<and> on_select_new_doctor True doc (sess r) (store r)
               = Some (finish no_session d' [Doctor_updated])
           \<and> get_appointment d' i = Some (a\<lparr>doctor := doc\<rparr>)
           \<and> (doctor a \<noteq> doc \<longrightarrow>
                slot_count d' doc (date a) (time a) = slot_count d doc (date a) (time a) + 1))"
    using adm 1 g1 c1
    by (simp add: process_callback_edit_doctor_def on_select_new_doctor_def in_state_def
        process_callback_select_new_doctor_def finish_def Let_def)
  have B: "(let r = process_callback_edit_time admins uid i s d;
              d' = snd (update_appointment True i [Set_time tm] d)
          in raised r = None \<and> store r = d \<and> state (sess r) = Some waiting_for_new_time
           \<and> on_select_new_time True tm (sess r) (store r)
               = Some (finish no_session d' [Time_updated])
           \<and> get_appointment d' i = Some (a\<lparr>time := tm\<rparr>)
           \<and> (time a \<noteq> tm \<longrightarrow>
                slot_count d' (doctor a) (date a) tm = slot_count d (doctor a) (date a) tm + 1))"
    using adm 2 g2 c2
    by (simp add: process_callback_edit_time_def on_select_new_time_def in_state_def
        process_callback_select_new_time_def finish_def Let_def)
  have C: "today + 13 \<le> MAXORDINAL \<longrightarrow>
          (let r = process_callback_edit_date admins today uid i s d;
              d' = snd (update_appointment True i [Set_date dt] d)
          in raised r = None \<and> store r = d \<and> state (sess r) = Some waiting_for_new_date
           \<and> on_select_new_date True dt (sess r) (store r)
               = Some (finish no_session d' [Date_updated])
           \<and> get_appointment d' i = Some (a\<lparr>date := dt\<rparr>)
           \<and> (date a \<noteq> dt \<longrightarrow>
                slot_count d' (doctor a) dt (time a) = slot_count d (doctor a) dt (time a) + 1))"
  proof
    assume "today + 13 \<le> MAXORDINAL"
    from k[OF this] obtain kb where kb: "edit_date_buttons today i = Inr kb" by blast
    show "(let r = process_callback_edit_date admins today uid i s d;
              d' = snd (update_appointment True i [Set_date dt] d)
          in raised r = None \<and> store r = d \<and> state (sess r) = Some waiting_for_new_date
           \<and> on_select_new_date True dt (sess r) (store r)
               = Some (finish no_session d' [Date_updated])
           \<and> get_appointment d' i = Some (a\<lparr>date := dt\<rparr>)
           \<and> (date a \<noteq> dt \<longrightarrow>
                slot_count d' (doctor a) dt (time a) = slot_count d (doctor a) dt (time a) + 1))"
      using adm 3 g3 c3 kb
      by (simp add: process_callback_edit_date_def on_select_new_date_def in_state_def
          process_callback_select_new_date_def finish_def Let_def)
  qed
  from A B C show ?thesis by blast
qed


theorem edit_without_conflict_check_witness:
  "(100::int) \<in> set [100]
   \<and> map_option status (get_appointment example_two_bookings 2) = Some ACTIVE
   \<and> \<not> is_appointment_available example_two_bookings (hd DOCTORS) (py ''05.11.2026'')
         (py ''09:00'')
   \<and> map_option replies
        (on_select_new_doctor True (hd DOCTORS)
           (sess (process_callback_edit_doctor [100] 100 2 no_session example_two_bookings))
           (store (process_callback_edit_doctor [100] 100 2 no_session example_two_bookings)))
       = Some [Doctor_updated]
   \<and> slot_count (snd (update_appointment True 2 [Set_doctor (hd DOCTORS)] example_two_bookings))
        (hd DOCTORS) (py ''05.11.2026'') (py ''09:00'') = 2"
proof -
  have adm: "(100::int) \<in> set [100]" by simp
  obtain a where a: "get_appointment example_two_bookings 2 = Some a" "status a = ACTIVE"
    "doctor a = DOCTORS ! 1" "date a = py ''05.11.2026''" "time a = py ''09:00''"
    by (simp add: example_two_bookings_def example_defs)
  have ne: "doctor a \<noteq> hd DOCTORS" by (simp add: a(3) DOCTORS_def)
  have busy: "\<not> is_appointment_available example_two_bookings (hd DOCTORS) (py ''05.11.2026'')
         (py ''09:00'')"
    and cnt: "slot_count example_two_bookings (hd DOCTORS) (py ''05.11.2026'') (py ''09:00'') = 1"
    by (simp_all add: example_two_bookings_def example_defs slot_count_def)
  from edit_without_conflict_check[OF adm a(1,2), of no_session "hd DOCTORS" "[]" 0 "[]"] ne
  have "on_select_new_doctor True (hd DOCTORS)
           (sess (process_callback_edit_doctor [100] 100 2 no_session example_two_bookings))
           (store (process_callback_edit_doctor [100] 100 2 no_session example_two_bookings))
         = Some (finish no_session
             (snd (update_appointment True 2 [Set_doctor (hd DOCTORS)] example_two_bookings))
             [Doctor_updated])"
    and "slot_count (snd (update_appointment True 2 [Set_doctor (hd DOCTORS)] example_two_bookings))
        (hd DOCTORS) (date a) (time a)
       = slot_count example_two_bookings (hd DOCTORS) (date a) (time a) + 1"
    unfolding Let_def by blast+
  with adm a busy cnt show ?thesis by (simp add: finish_def)
qed

subsection \<open>The time step and double booking\<close>






end
